theory Spec2Isabelle
  imports Complex_Main
begin

section \<open>Tensors, errors and the framework operations the models call\<close>

text \<open>
  The two models of the repository (\<^verbatim>\<open>denoising-diffusion/ddpm.py\<close> and
  \<^verbatim>\<open>variational-autoencoder/vae/vae.py\<close>) compute with tensors of the host
  framework. All arithmetic is exact here: a \<^verbatim>\<open>float32\<close> entry is a \<^typ>\<open>real\<close>,
  and the conversions \<^verbatim>\<open>.float()\<close> are the identity.

  A tensor with more than one dimension is its shape and its entries in row-major order.
  A one-dimensional tensor is a list: of reals for \<^verbatim>\<open>float32\<close>, of integers for
  \<^verbatim>\<open>long\<close> (the type \<^verbatim>\<open>NoiseLevel\<close>). Sizes and step counts are natural numbers.
\<close>

record tensor =
  shape :: "nat list"
  data :: "real list"

text \<open>Every tensor of the framework has as many entries as its shape says.\<close>

definition wf_tensor :: "tensor \<Rightarrow> bool" where
  "wf_tensor t \<longleftrightarrow> length (data t) = prod_list (shape t)"

text \<open>The exceptions the code can raise, by their Python class (and message, where the
  source gives one).\<close>

datatype error =
    RuntimeError string
  | AssertionError string
  | IndexError
  | TypeError
  | UnboundLocalError

text \<open>\<^verbatim>\<open>torch.linspace(start, end, steps)\<close>: \<open>steps\<close> points from \<open>start\<close> to \<open>end\<close>
  inclusive; a single step gives \<open>[start]\<close>.\<close>

definition linspace :: "real \<Rightarrow> real \<Rightarrow> nat \<Rightarrow> real list" where
  "linspace start end steps =
     (if steps = 1 then [start]
      else map (\<lambda>i. start + real i * ((end - start) / real (steps - 1))) [0..<steps])"

text \<open>\<^verbatim>\<open>torch.cumprod(xs, dim=0)\<close>: the running product, carried in an accumulator.\<close>

fun cumprod_acc :: "real \<Rightarrow> real list \<Rightarrow> real list" where
  "cumprod_acc a [] = []"
| "cumprod_acc a (x # xs) = (a * x) # cumprod_acc (a * x) xs"

definition cumprod :: "real list \<Rightarrow> real list" where
  "cumprod xs = cumprod_acc 1 xs"

text \<open>Indexing a one-dimensional buffer with a tensor of integer indices, \<^verbatim>\<open>buf[n]\<close>:
  an index \<open>i\<close> with \<open>- len \<le> i < len\<close> is read, a negative one counting from the end,
  and any other index raises \<^verbatim>\<open>IndexError\<close>.\<close>

definition index_ok :: "nat \<Rightarrow> int \<Rightarrow> bool" where
  "index_ok len i \<longleftrightarrow> - int len \<le> i \<and> i < int len"

definition wrap_index :: "nat \<Rightarrow> int \<Rightarrow> nat" where
  "wrap_index len i = nat (if i < 0 then i + int len else i)"

definition gather :: "real list \<Rightarrow> int list \<Rightarrow> error + real list" where
  "gather buf n =
     (if list_all (index_ok (length buf)) n
      then Inr (map (\<lambda>i. buf ! wrap_index (length buf) i) n)
      else Inl IndexError)"

text \<open>Sequencing of computations that may raise.\<close>

definition and_then :: "error + 'a \<Rightarrow> ('a \<Rightarrow> error + 'b) \<Rightarrow> error + 'b" where
  "and_then r f = (case r of Inl e \<Rightarrow> Inl e | Inr v \<Rightarrow> f v)"

text \<open>Entry-wise operations. \<open>tmap\<close> applies a unary operation (\<^verbatim>\<open>torch.sqrt\<close>,
  \<^verbatim>\<open>1 - t\<close>), \<open>ewise\<close> a binary one to two tensors of the same shape. \<open>bcast_l\<close> and
  \<open>bcast_r\<close> are the binary operations between an image batch \<open>x\<close> of shape
  \<open>(B, \<dots>)\<close> and a tensor \<open>a\<close> of shape \<open>(B, 1, \<dots>, 1)\<close>, which the framework
  broadcasts: the entry of \<open>x\<close> at row-major position \<open>k\<close> lies in batch element
  \<open>k div inner x\<close> and meets the entry of \<open>a\<close> for that batch element. The type guards
  of the methods below admit these shapes only.\<close>

definition inner :: "tensor \<Rightarrow> nat" where
  "inner x = prod_list (tl (shape x))"

definition tmap :: "(real \<Rightarrow> real) \<Rightarrow> tensor \<Rightarrow> tensor" where
  "tmap f t = \<lparr>shape = shape t, data = map f (data t)\<rparr>"

definition ewise :: "(real \<Rightarrow> real \<Rightarrow> real) \<Rightarrow> tensor \<Rightarrow> tensor \<Rightarrow> tensor" where
  "ewise f x y = \<lparr>shape = shape x, data = map2 f (data x) (data y)\<rparr>"

definition bcast_l :: "(real \<Rightarrow> real \<Rightarrow> real) \<Rightarrow> tensor \<Rightarrow> tensor \<Rightarrow> tensor" where
  "bcast_l f a x =
     \<lparr>shape = shape x,
      data = map (\<lambda>k. f (data a ! (k div inner x)) (data x ! k)) [0..<length (data x)]\<rparr>"

definition bcast_r :: "(real \<Rightarrow> real \<Rightarrow> real) \<Rightarrow> tensor \<Rightarrow> tensor \<Rightarrow> tensor" where
  "bcast_r f x a =
     \<lparr>shape = shape x,
      data = map (\<lambda>k. f (data x ! k) (data a ! (k div inner x))) [0..<length (data x)]\<rparr>"

text \<open>\<^verbatim>\<open>torch.normal(mean=mean, std=std)\<close> with \<open>std\<close> of shape \<open>(B, 1, \<dots>, 1)\<close>:
  every entry is drawn as its mean plus its standard deviation times a unit-normal
  draw; \<open>xi k\<close> is the unit-normal draw for position \<open>k\<close>. The framework refuses a
  negative standard deviation.\<close>

definition normal :: "(nat \<Rightarrow> real) \<Rightarrow> tensor \<Rightarrow> tensor \<Rightarrow> error + tensor" where
  "normal xi mean std =
     (if \<not> list_all (\<lambda>s. 0 \<le> s) (data std)
      then Inl (RuntimeError ''normal expects all elements of std >= 0.0'')
      else Inr \<lparr>shape = shape mean,
                data = map (\<lambda>k. data mean ! k + data std ! (k div inner mean) * xi k)
                         [0..<length (data mean)]\<rparr>)"

text \<open>\<^verbatim>\<open>torch.randn(size)\<close>: a tensor of unit-normal draws, \<open>xi k\<close> at position \<open>k\<close>.\<close>

definition randn :: "(nat \<Rightarrow> real) \<Rightarrow> nat list \<Rightarrow> tensor" where
  "randn xi sz = \<lparr>shape = sz, data = map xi [0..<prod_list sz]\<rparr>"

text \<open>The type guard \<^verbatim>\<open>@typechecked\<close> with the annotation \<^verbatim>\<open>ImageBatch\<close>: four
  dimensions, and every dimension name bound to one size across the arguments and the
  result of a call; \<^verbatim>\<open>NoiseLevel\<close> and \<^verbatim>\<open>NormalizedNoiseLevel\<close> have the one
  dimension \<open>batch_size\<close>.\<close>

definition is_ImageBatch :: "tensor \<Rightarrow> bool" where
  "is_ImageBatch t \<longleftrightarrow> length (shape t) = 4"

definition batch_size_of :: "tensor \<Rightarrow> nat" where
  "batch_size_of t = hd (shape t)"

text \<open>\<^verbatim>\<open>batch_broadcast(a, b)\<close>: the one-dimensional \<open>a\<close> viewed with shape
  \<open>(-1, 1, \<dots>, 1)\<close>, one dimension of size one for each dimension of \<open>b\<close> but the first.
  The assertion \<^verbatim>\<open>a.ndim == 1\<close> holds of every list.\<close>

definition batch_broadcast :: "real list \<Rightarrow> tensor \<Rightarrow> tensor" where
  "batch_broadcast a b = \<lparr>shape = length a # replicate (length (shape b) - 1) 1, data = a\<rparr>"

text \<open>The comment on \<^verbatim>\<open>NoiseLevel\<close>: integer noise levels between \<open>0\<close> and \<open>N - 1\<close>.\<close>

definition in_range :: "nat \<Rightarrow> int list \<Rightarrow> bool" where
  "in_range steps n \<longleftrightarrow> list_all (\<lambda>i. 0 \<le> i \<and> i < int steps) n"

text \<open>The entry of an image batch of shape \<open>(B, C, H, W)\<close> at batch element \<open>b\<close>,
  channel \<open>c\<close>, row \<open>h\<close> and column \<open>w\<close>.\<close>

definition entry4 :: "tensor \<Rightarrow> nat \<Rightarrow> nat \<Rightarrow> nat \<Rightarrow> nat \<Rightarrow> real" where
  "entry4 t b c h w =
     data t ! (((b * (shape t ! 1) + c) * (shape t ! 2) + h) * (shape t ! 3) + w)"

section \<open>The denoising diffusion model\<close>

subsection \<open>The denoising networks\<close>

text \<open>The constructor of \<^verbatim>\<open>ResNet\<close> only builds layers; the one of \<^verbatim>\<open>MiniUnet\<close>
  first asserts \<^verbatim>\<open>n_layers <= 2\<close>. The weights of the layers belong to the framework;
  a network is recorded by its class and hyperparameters.\<close>

datatype network =
    ResNet nat nat nat
  | MiniUnet nat nat nat

definition ResNet_init :: "nat \<Rightarrow> nat \<Rightarrow> nat \<Rightarrow> error + network" where
  "ResNet_init feature_dim hidden_dim n_layers = Inr (ResNet feature_dim hidden_dim n_layers)"

definition MiniUnet_init :: "nat \<Rightarrow> nat \<Rightarrow> nat \<Rightarrow> error + network" where
  "MiniUnet_init feature_dim hidden_dim n_layers =
     (if \<not> n_layers \<le> 2
      then Inl (AssertionError
        ''MNIST images can only be downsampled twice without taking care of padding issues'')
      else Inr (MiniUnet feature_dim hidden_dim n_layers))"

subsection \<open>The constructor and its noise schedule\<close>

record DDPM =
  N :: nat
  type :: string
  model :: network
  alpha :: "real list"
  beta :: "real list"
  alpha_bar :: "real list"
  beta_tilde :: "real list"

text \<open>The schedule block of \<^verbatim>\<open>DDPM.__init__\<close> (lines 177 to 187). The quotient of
  \<open>numerator_shifted\<close> and \<open>1 - alpha_bar\<close> is taken entry by entry; the item assignment
  \<^verbatim>\<open>beta_tilde[0] = beta[0]\<close> raises \<^verbatim>\<open>IndexError\<close> on an empty schedule. The result is
  \<open>(alpha, beta, alpha_bar, beta_tilde)\<close>.\<close>

definition schedule :: "nat \<Rightarrow> error + (real list \<times> real list \<times> real list \<times> real list)" where
  "schedule steps =
     (let beta_start = 1 / 10000;
          beta_end = 2 / 100;
          beta0 = linspace beta_start beta_end steps;
          alpha0 = map (\<lambda>b. 1 - b) beta0;
          alpha_bar0 = cumprod alpha0;
          numerator_shifted = map (\<lambda>a. 1 - a) (1 # butlast alpha_bar0);
          beta_tilde0 = map2 (*) beta0
                          (map2 (/) numerator_shifted (map (\<lambda>a. 1 - a) alpha_bar0))
      in if beta_tilde0 = [] \<or> beta0 = [] then Inl IndexError
         else Inr (alpha0, beta0, alpha_bar0, beta_tilde0[0 := beta0 ! 0]))"

definition DDPM_init :: "nat \<Rightarrow> string \<Rightarrow> nat \<Rightarrow> nat \<Rightarrow> error + DDPM" where
  "DDPM_init steps ty hidden_dim n_layers =
     (case (if ty = ''resnet'' then ResNet_init 1 hidden_dim n_layers
            else if ty = ''unet'' then MiniUnet_init 1 hidden_dim n_layers
            else Inl (RuntimeError (''Unknown model type '' @ ty))) of
        Inl e \<Rightarrow> Inl e
      | Inr net \<Rightarrow>
          (case schedule steps of
             Inl e \<Rightarrow> Inl e
           | Inr (a, b, ab, bt) \<Rightarrow>
               Inr \<lparr>N = steps, type = ty, model = net,
                    alpha = a, beta = b, alpha_bar = ab, beta_tilde = bt\<rparr>))"

subsection \<open>The methods\<close>

text \<open>\<^verbatim>\<open>ResNet.forward\<close> and \<^verbatim>\<open>MiniUnet.forward\<close> are type-guarded: the
  arguments are an image batch and one normalized noise level for each batch element, and
  the result is an image batch of the same shape. The convolutions between the two guards
  are the framework's, with weights that training sets: they are the parameter \<open>body\<close>.\<close>

definition forward ::
  "(network \<Rightarrow> tensor \<Rightarrow> real list \<Rightarrow> error + tensor) \<Rightarrow> network \<Rightarrow> tensor \<Rightarrow> real list
     \<Rightarrow> error + tensor" where
  "forward body net z_n n =
     (if \<not> (is_ImageBatch z_n \<and> length n = batch_size_of z_n) then Inl TypeError
      else and_then (body net z_n n) (\<lambda>out.
        if is_ImageBatch out \<and> shape out = shape z_n then Inr out else Inl TypeError))"

text \<open>Lines 213 to 215 of \<^verbatim>\<open>simplified_loss\<close>: the noisy sample \<open>z_n\<close>.\<close>

definition simplified_loss_z_n :: "DDPM \<Rightarrow> tensor \<Rightarrow> int list \<Rightarrow> tensor \<Rightarrow> error + tensor" where
  "simplified_loss_z_n self x0 n epsilon =
     and_then (gather (alpha_bar self) n) (\<lambda>alpha_bar_n.
       let broadcasted_alpha_bar_n = batch_broadcast alpha_bar_n x0;
           z_n = bcast_l (*) broadcasted_alpha_bar_n x0;
           z_n = ewise (+) z_n
                   (bcast_l (*) (batch_broadcast (map (\<lambda>a. sqrt (1 - a)) alpha_bar_n) epsilon)
                      epsilon)
       in Inr z_n)"

definition simplified_loss ::
  "(network \<Rightarrow> tensor \<Rightarrow> real list \<Rightarrow> error + tensor) \<Rightarrow> DDPM \<Rightarrow> tensor \<Rightarrow> int list \<Rightarrow> tensor
     \<Rightarrow> error + real" where
  "simplified_loss body self x0 n epsilon =
     (if \<not> (is_ImageBatch x0 \<and> is_ImageBatch epsilon \<and> shape epsilon = shape x0
             \<and> length n = batch_size_of x0)
      then Inl TypeError
      else
        let norm_n = map (\<lambda>i. real_of_int i / real (N self)) n in
        and_then (simplified_loss_z_n self x0 n epsilon) (\<lambda>z_n.
        and_then (forward body (model self) z_n norm_n) (\<lambda>epsilon_theta.
          Inr (sum_list (map (\<lambda>d. d ^ 2) (data (ewise (-) epsilon epsilon_theta)))))))"

definition estimate_x0 :: "DDPM \<Rightarrow> tensor \<Rightarrow> int list \<Rightarrow> tensor \<Rightarrow> error + tensor" where
  "estimate_x0 self z_n n epsilon =
     (if \<not> (is_ImageBatch z_n \<and> is_ImageBatch epsilon \<and> shape epsilon = shape z_n
             \<and> length n = batch_size_of z_n)
      then Inl TypeError
      else
        and_then (gather (alpha_bar self) n) (\<lambda>alpha_bar_n.
          let broadcasted_alpha_bar_n = batch_broadcast alpha_bar_n z_n;
              x_0 = bcast_r (/)
                      (ewise (-) z_n
                         (bcast_l (*) (tmap sqrt (tmap (\<lambda>a. 1 - a) broadcasted_alpha_bar_n))
                            epsilon))
                      (tmap sqrt broadcasted_alpha_bar_n)
          in if is_ImageBatch x_0 \<and> shape x_0 = shape z_n then Inr x_0 else Inl TypeError))"

definition sample_z_n_previous ::
  "(nat \<Rightarrow> real) \<Rightarrow> DDPM \<Rightarrow> tensor \<Rightarrow> tensor \<Rightarrow> int list \<Rightarrow> error + tensor" where
  "sample_z_n_previous xi self x0 z_n n =
     (if \<not> (is_ImageBatch x0 \<and> is_ImageBatch z_n \<and> shape z_n = shape x0
             \<and> length n = batch_size_of x0)
      then Inl TypeError
      else
        and_then (gather (alpha self) n) (\<lambda>alpha_n.
        and_then (gather (alpha_bar self) (map (\<lambda>i. i - 1) n)) (\<lambda>alpha_bar_prev.
        and_then (gather (alpha_bar self) n) (\<lambda>alpha_bar_n.
        and_then (gather (beta self) n) (\<lambda>beta_n.
        and_then (gather (beta_tilde self) n) (\<lambda>beta_tilde_n.
          let mu = bcast_r (*) z_n
                     (batch_broadcast
                        (map2 (/) (map2 (*) (map sqrt alpha_n) (map (\<lambda>a. 1 - a) alpha_bar_prev))
                           (map (\<lambda>a. 1 - a) alpha_bar_n)) z_n);
              mu = ewise (+) mu
                     (bcast_r (*) x0
                        (batch_broadcast
                           (map2 (/) (map2 (*) (map sqrt alpha_bar_prev) beta_n)
                              (map (\<lambda>a. 1 - a) alpha_bar_n)) x0));
              broadcasted_beta_tilde = batch_broadcast beta_tilde_n z_n
          in and_then (normal xi mu broadcasted_beta_tilde) (\<lambda>z_prev.
               if is_ImageBatch z_prev \<and> shape z_prev = shape x0 then Inr z_prev
               else Inl TypeError)))))))"

text \<open>The loop of \<^verbatim>\<open>sample\<close> over the levels \<open>ns\<close> that are left, with the current
  \<open>z_n\<close> and the last estimate \<open>x0\<close>, unbound before the first pass. \<open>xi n\<close> holds the
  unit-normal draws of the pass at level \<open>n\<close>.\<close>

fun sample_loop ::
  "(network \<Rightarrow> tensor \<Rightarrow> real list \<Rightarrow> error + tensor) \<Rightarrow> (nat \<Rightarrow> nat \<Rightarrow> real) \<Rightarrow> DDPM \<Rightarrow> nat
     \<Rightarrow> nat list \<Rightarrow> tensor \<Rightarrow> tensor option \<Rightarrow> error + tensor option" where
  "sample_loop body xi self batch_size [] z_n x0 = Inr x0"
| "sample_loop body xi self batch_size (n # ns) z_n x0 =
     (let noise_level = replicate batch_size (int n);
          normalize_noise_level = replicate batch_size (real n / real (N self))
      in and_then (forward body (model self) z_n normalize_noise_level) (\<lambda>predicted_noise.
         and_then (estimate_x0 self z_n noise_level predicted_noise) (\<lambda>x0'.
           if n = 0 then Inr (Some x0')
           else and_then (sample_z_n_previous (xi n) self x0' z_n noise_level) (\<lambda>z_n'.
                  sample_loop body xi self batch_size ns z_n' (Some x0')))))"

text \<open>\<^verbatim>\<open>DDPM.sample\<close>: \<open>z_N\<close> holds the draws of the initial \<^verbatim>\<open>torch.randn\<close>. Returning
  an unbound \<open>x0\<close> raises \<^verbatim>\<open>UnboundLocalError\<close>.\<close>

definition sample ::
  "(network \<Rightarrow> tensor \<Rightarrow> real list \<Rightarrow> error + tensor) \<Rightarrow> (nat \<Rightarrow> real) \<Rightarrow> (nat \<Rightarrow> nat \<Rightarrow> real)
     \<Rightarrow> DDPM \<Rightarrow> nat \<Rightarrow> error + tensor" where
  "sample body z_N xi self batch_size =
     (let noise_shape = [batch_size, 1, 28, 28];
          z_n = randn z_N noise_shape
      in and_then (sample_loop body xi self batch_size (rev [0..<N self]) z_n None) (\<lambda>x0.
           case x0 of None \<Rightarrow> Inl UnboundLocalError | Some x \<Rightarrow> Inr x))"

text \<open>The sampling loop in the words of section 4.4 of the specification: start from pure
  noise \<open>z_N\<close>; for \<open>n = N - 1\<close> down to 0 predict the noise from \<open>(z_n, n / N)\<close> and
  compute the estimate of \<open>x0\<close>; if \<open>n > 0\<close> sample \<open>z_{n-1}\<close> by the reverse step, else
  terminate and return the estimate. \<open>sampling_spec \<dots> k z\<close> runs the levels
  \<open>k - 1, \<dots>, 0\<close> from \<open>z\<close>; the specification wants at least one level, and with none
  there is no estimate to return.\<close>

fun sampling_spec ::
  "(network \<Rightarrow> tensor \<Rightarrow> real list \<Rightarrow> error + tensor) \<Rightarrow> (nat \<Rightarrow> nat \<Rightarrow> real) \<Rightarrow> DDPM \<Rightarrow> nat
     \<Rightarrow> nat \<Rightarrow> tensor \<Rightarrow> error + tensor" where
  "sampling_spec body xi self batch_size 0 z_n = Inl UnboundLocalError"
| "sampling_spec body xi self batch_size (Suc n) z_n =
     and_then (forward body (model self) z_n (replicate batch_size (real n / real (N self))))
       (\<lambda>epsilon_hat.
     and_then (estimate_x0 self z_n (replicate batch_size (int n)) epsilon_hat) (\<lambda>x0_hat.
       if 0 < n
       then and_then (sample_z_n_previous (xi n) self x0_hat z_n (replicate batch_size (int n)))
              (\<lambda>z_prev. sampling_spec body xi self batch_size n z_prev)
       else Inr x0_hat))"

section \<open>The variational autoencoder\<close>

text \<open>\<^verbatim>\<open>torch.sum(t, 1)\<close> of a tensor of shape \<open>(B, L)\<close>: the sum of every row, the
  row \<open>b\<close> being the \<open>L\<close> entries from row-major position \<open>b * L\<close> on.\<close>

definition sum_dim1 :: "tensor \<Rightarrow> real list" where
  "sum_dim1 t =
     map (\<lambda>b. sum_list (take (shape t ! 1) (drop (b * (shape t ! 1)) (data t))))
       [0..<shape t ! 0]"

text \<open>The entry in row \<open>b\<close> and column \<open>j\<close> of a tensor of shape \<open>(B, L)\<close>.\<close>

definition entry2 :: "tensor \<Rightarrow> nat \<Rightarrow> nat \<Rightarrow> real" where
  "entry2 t b j = data t ! (b * (shape t ! 1) + j)"

text \<open>\<^verbatim>\<open>VAE.kl_divergence\<close>. The type guard wants two tensors of two dimensions with
  the same \<open>batch_size\<close> and \<open>latent_dim\<close>, and a result of the one dimension
  \<open>batch_size\<close>.\<close>

definition kl_divergence :: "tensor \<Rightarrow> tensor \<Rightarrow> error + real list" where
  "kl_divergence mu logsigma =
     (if \<not> (length (shape mu) = 2 \<and> length (shape logsigma) = 2 \<and> shape logsigma = shape mu)
      then Inl TypeError
      else
        let log_sigma_squared = ewise (+) logsigma logsigma;
            sigma_squared = tmap exp log_sigma_squared;
            mu_squared = ewise (*) mu mu;
            kl = map (\<lambda>s. (1 / 2) * s)
                   (sum_dim1
                      (tmap (\<lambda>v. v - 1)
                         (ewise (-) (ewise (+) sigma_squared mu_squared) log_sigma_squared)))
        in if length kl = shape mu ! 0 then Inr kl else Inl TypeError)"

text \<open>The entry of the tensor that \<^verbatim>\<open>kl_divergence\<close> sums, for one mean \<open>m\<close> and one
  log-sigma \<open>l\<close>: \<^verbatim>\<open>sigma_squared + mu_squared - log_sigma_squared - 1\<close>.\<close>

definition kl_term :: "real \<Rightarrow> real \<Rightarrow> real" where
  "kl_term m l = exp (l + l) + m * m - (l + l) - 1"

section \<open>Concrete inputs\<close>

text \<open>The models with one and with two diffusion steps that the constructor builds for
  \<^verbatim>\<open>DDPM(N, "resnet", 16, 2)\<close>, and small image batches.\<close>

definition ddpm1 :: DDPM where
  "ddpm1 = \<lparr>N = 1, type = ''resnet'', model = ResNet 1 16 2,
             alpha = [9999 / 10000], beta = [1 / 10000],
             alpha_bar = [9999 / 10000], beta_tilde = [1 / 10000]\<rparr>"

definition ddpm2 :: DDPM where
  "ddpm2 = \<lparr>N = 2, type = ''resnet'', model = ResNet 1 16 2,
             alpha = [9999 / 10000, 49 / 50], beta = [1 / 10000, 1 / 50],
             alpha_bar = [9999 / 10000, 489951 / 500000],
             beta_tilde = [1 / 10000, 1 / 10049]\<rparr>"

text \<open>An image batch of shape \<open>(1, 1, 1, 1)\<close> with the entry \<open>v\<close>.\<close>

definition pixel :: "real \<Rightarrow> tensor" where
  "pixel v = \<lparr>shape = [1, 1, 1, 1], data = [v]\<rparr>"

text \<open>The image batch that \<^verbatim>\<open>torch.randn\<close> returns in \<^verbatim>\<open>sample\<close> when every draw
  is 0.\<close>

definition zeros :: "nat \<Rightarrow> tensor" where
  "zeros b = randn (\<lambda>k. 0) [b, 1, 28, 28]"

section \<open>Facts about the framework operations and the constructor\<close>

lemma length_linspace: "length (linspace s e n) = n"
  by (simp add: linspace_def)

lemma nth_linspace:
  "i < n \<Longrightarrow> linspace s e n ! i = (if n = 1 then s else s + real i * ((e - s) / real (n - 1)))"
  by (auto simp add: linspace_def)

lemma linspace_bounds:
  assumes "s \<le> e" "i < n"
  shows "s \<le> linspace s e n ! i \<and> linspace s e n ! i \<le> e"
proof (cases "n = 1")
  case True
  with assms show ?thesis by (simp add: linspace_def)
next
  case False
  with assms have n2: "2 \<le> n" by simp
  define d where "d = (e - s) / real (n - 1)"
  have d0: "0 \<le> d" using assms n2 by (simp add: d_def)
  have "real i * d \<le> real (n - 1) * d"
    using assms d0 by (intro mult_right_mono) auto
  also have "real (n - 1) * d = e - s" using n2 by (simp add: d_def)
  finally have up: "real i * d \<le> e - s" .
  have lo: "0 \<le> real i * d" using d0 by simp
  have "linspace s e n ! i = s + real i * d"
    using assms False by (simp add: nth_linspace d_def)
  with up lo show ?thesis by simp
qed

lemma length_cumprod_acc: "length (cumprod_acc a xs) = length xs"
  by (induction xs arbitrary: a) simp_all

lemma nth_cumprod_acc:
  "i < length xs \<Longrightarrow> cumprod_acc a xs ! i = a * prod_list (take (Suc i) xs)"
proof (induction xs arbitrary: a i)
  case Nil
  then show ?case by simp
next
  case (Cons x xs)
  show ?case
  proof (cases i)
    case 0
    then show ?thesis by simp
  next
    case (Suc j)
    with Cons.prems have "j < length xs" by simp
    from Cons.IH [OF this, of "a * x"] Suc show ?thesis by (simp add: mult.assoc)
  qed
qed

lemma length_cumprod: "length (cumprod xs) = length xs"
  by (simp add: cumprod_def length_cumprod_acc)

lemma nth_cumprod: "i < length xs \<Longrightarrow> cumprod xs ! i = prod_list (take (Suc i) xs)"
  by (simp add: cumprod_def nth_cumprod_acc)

lemma cumprod_0: "0 < length xs \<Longrightarrow> cumprod xs ! 0 = xs ! 0"
  by (cases xs) (simp_all add: cumprod_def)

lemma cumprod_Suc:
  "Suc i < length xs \<Longrightarrow> cumprod xs ! Suc i = cumprod xs ! i * xs ! Suc i"
  by (simp add: nth_cumprod take_Suc_conv_app_nth [of "Suc i"])

lemma cumprod_unit_interval:
  assumes "\<forall>j < length xs. 0 < xs ! j \<and> xs ! j < 1" "i < length xs"
  shows "0 < cumprod xs ! i \<and> cumprod xs ! i < 1"
  using assms(2)
proof (induction i)
  case 0
  with assms(1) show ?case by (simp add: cumprod_0)
next
  case (Suc i)
  then have ih: "0 < cumprod xs ! i" "cumprod xs ! i < 1" by simp_all
  from assms(1) Suc.prems have x: "0 < xs ! Suc i" "xs ! Suc i < 1" by simp_all
  have "cumprod xs ! i * xs ! Suc i < 1 * 1"
    using ih x by (intro mult_strict_mono) simp_all
  with ih x Suc.prems show ?case by (simp add: cumprod_Suc)
qed

lemma cumprod_step_le:
  assumes "\<forall>j < length xs. 0 < xs ! j \<and> xs ! j < 1" "Suc i < length xs"
  shows "cumprod xs ! Suc i \<le> cumprod xs ! i"
proof -
  have "0 < cumprod xs ! i" using cumprod_unit_interval [OF assms(1), of i] assms(2) by simp
  moreover have "xs ! Suc i < 1" using assms by simp
  ultimately have "cumprod xs ! i * xs ! Suc i \<le> cumprod xs ! i * 1"
    by (intro mult_left_mono) simp_all
  with assms(2) show ?thesis by (simp add: cumprod_Suc)
qed

lemma cumprod_antimono:
  assumes "\<forall>j < length xs. 0 < xs ! j \<and> xs ! j < 1" "i \<le> j" "j < length xs"
  shows "cumprod xs ! j \<le> cumprod xs ! i"
  using assms(2,3)
proof (induction j)
  case 0
  then show ?case by simp
next
  case (Suc j)
  show ?case
  proof (cases "i = Suc j")
    case True
    then show ?thesis by simp
  next
    case False
    with Suc.prems have "i \<le> j" "j < length xs" by simp_all
    then have "cumprod xs ! j \<le> cumprod xs ! i" by (rule Suc.IH)
    moreover have "cumprod xs ! Suc j \<le> cumprod xs ! j"
      using cumprod_step_le [OF assms(1)] Suc.prems by simp
    ultimately show ?thesis by simp
  qed
qed

text \<open>The schedule for at least one step.\<close>

lemma schedule_Inr:
  assumes "0 < steps"
  shows "\<exists>a b ab bt. schedule steps = Inr (a, b, ab, bt)
     \<and> b = linspace (1 / 10000) (2 / 100) steps
     \<and> a = map (\<lambda>x. 1 - x) b
     \<and> ab = cumprod a
     \<and> length bt = steps
     \<and> bt ! 0 = b ! 0
     \<and> (\<forall>n. 0 < n \<and> n < steps \<longrightarrow> bt ! n = b ! n * ((1 - ab ! (n - 1)) / (1 - ab ! n)))"
proof -
  define b where "b = linspace (1 / 10000) (2 / 100) steps"
  define a where "a = map (\<lambda>x. 1 - x) b"
  define ab where "ab = cumprod a"
  define ns where "ns = map (\<lambda>x. 1 - x) (1 # butlast ab)"
  define bt0 where "bt0 = map2 (*) b (map2 (/) ns (map (\<lambda>x. 1 - x) ab))"
  have lb: "length b = steps" by (simp add: b_def length_linspace)
  have la: "length a = steps" by (simp add: a_def lb)
  have lab: "length ab = steps" by (simp add: ab_def length_cumprod la)
  have lns: "length ns = steps" using assms by (simp add: ns_def lab)
  have lbt: "length bt0 = steps" by (simp add: bt0_def lb lns lab)
  have ne: "bt0 \<noteq> []" "b \<noteq> []" using lbt lb assms by auto
  have sch: "schedule steps = Inr (a, b, ab, bt0[0 := b ! 0])"
    using ne unfolding schedule_def Let_def bt0_def ns_def ab_def a_def b_def by simp
  have nth_ns: "ns ! n = 1 - ab ! (n - 1)" if "0 < n" "n < steps" for n
  proof -
    from that obtain k where k: "n = Suc k" by (cases n) auto
    with that have "k < length (butlast ab)" by (simp add: lab)
    then show ?thesis using k by (simp add: ns_def nth_butlast)
  qed
  have nth_bt: "bt0[0 := b ! 0] ! n = b ! n * ((1 - ab ! (n - 1)) / (1 - ab ! n))"
    if "0 < n" "n < steps" for n
    using that by (simp add: bt0_def lb lns lab nth_ns)
  have "bt0[0 := b ! 0] ! 0 = b ! 0" using lbt assms by simp
  with sch nth_bt lbt show ?thesis
    by (intro exI [of _ a] exI [of _ b] exI [of _ ab] exI [of _ "bt0[0 := b ! 0]"])
       (simp add: b_def a_def ab_def)
qed

lemma DDPM_init_Inr:
  assumes "DDPM_init steps ty hidden_dim n_layers = Inr self"
  shows "N self = steps"
    and "schedule steps = Inr (alpha self, beta self, alpha_bar self, beta_tilde self)"
    and "type self = ty"
  using assms
  by (auto simp: DDPM_init_def ResNet_init_def MiniUnet_init_def
      split: if_splits sum.splits prod.splits)

lemma schedule_0: "schedule 0 = Inl IndexError"
  by (simp add: schedule_def linspace_def)

lemma DDPM_init_steps_pos:
  assumes "DDPM_init steps ty hidden_dim n_layers = Inr self"
  shows "0 < steps"
proof (rule ccontr)
  assume "\<not> 0 < steps"
  then have "steps = 0" by simp
  with DDPM_init_Inr(2) [OF assms] show False by (simp add: schedule_0)
qed

lemma DDPM_init_buffers:
  assumes "DDPM_init steps ty hidden_dim n_layers = Inr self"
  shows "beta self = linspace (1 / 10000) (2 / 100) steps"
    and "alpha self = map (\<lambda>x. 1 - x) (beta self)"
    and "alpha_bar self = cumprod (alpha self)"
    and "length (beta_tilde self) = steps"
    and "beta_tilde self ! 0 = beta self ! 0"
    and "\<And>n. 0 < n \<Longrightarrow> n < steps \<Longrightarrow>
           beta_tilde self ! n
             = beta self ! n * ((1 - alpha_bar self ! (n - 1)) / (1 - alpha_bar self ! n))"
proof -
  from schedule_Inr [OF DDPM_init_steps_pos [OF assms]] DDPM_init_Inr(2) [OF assms]
  have *: "beta self = linspace (1 / 10000) (2 / 100) steps
     \<and> alpha self = map (\<lambda>x. 1 - x) (beta self)
     \<and> alpha_bar self = cumprod (alpha self)
     \<and> length (beta_tilde self) = steps
     \<and> beta_tilde self ! 0 = beta self ! 0
     \<and> (\<forall>n. 0 < n \<and> n < steps \<longrightarrow> beta_tilde self ! n
             = beta self ! n * ((1 - alpha_bar self ! (n - 1)) / (1 - alpha_bar self ! n)))"
    by auto
  from * show "beta self = linspace (1 / 10000) (2 / 100) steps" by blast
  from * show "alpha self = map (\<lambda>x. 1 - x) (beta self)" by blast
  from * show "alpha_bar self = cumprod (alpha self)" by blast
  from * show "length (beta_tilde self) = steps" by blast
  from * show "beta_tilde self ! 0 = beta self ! 0" by blast
  from * show "\<And>n. 0 < n \<Longrightarrow> n < steps \<Longrightarrow>
           beta_tilde self ! n
             = beta self ! n * ((1 - alpha_bar self ! (n - 1)) / (1 - alpha_bar self ! n))"
    by blast
qed

lemma DDPM_init_lengths:
  assumes "DDPM_init steps ty hidden_dim n_layers = Inr self"
  shows "length (beta self) = steps" "length (alpha self) = steps"
    "length (alpha_bar self) = steps" "length (beta_tilde self) = steps"
  using DDPM_init_buffers [OF assms] by (simp_all add: length_linspace length_cumprod)

lemma DDPM_init_beta_bounds:
  assumes "DDPM_init steps ty hidden_dim n_layers = Inr self" "n < steps"
  shows "1 / 10000 \<le> beta self ! n" "beta self ! n \<le> 2 / 100"
  using linspace_bounds [of "1 / 10000" "2 / 100" n steps] assms(2)
    DDPM_init_buffers(1) [OF assms(1)] by simp_all

lemma DDPM_init_alpha_nth:
  assumes "DDPM_init steps ty hidden_dim n_layers = Inr self" "n < steps"
  shows "alpha self ! n = 1 - beta self ! n"
  using DDPM_init_buffers(2) [OF assms(1)] DDPM_init_lengths(1) [OF assms(1)] assms(2)
  by simp

lemma DDPM_init_alpha_unit:
  assumes "DDPM_init steps ty hidden_dim n_layers = Inr self"
  shows "\<forall>j < length (alpha self). 0 < alpha self ! j \<and> alpha self ! j < 1"
proof (intro allI impI)
  fix j assume "j < length (alpha self)"
  then have j: "j < steps" by (simp add: DDPM_init_lengths(2) [OF assms])
  from DDPM_init_beta_bounds [OF assms j] DDPM_init_alpha_nth [OF assms j]
  show "0 < alpha self ! j \<and> alpha self ! j < 1" by simp
qed

lemma DDPM_init_alpha_bar_unit:
  assumes "DDPM_init steps ty hidden_dim n_layers = Inr self" "n < steps"
  shows "0 < alpha_bar self ! n" "alpha_bar self ! n < 1"
  using cumprod_unit_interval [OF DDPM_init_alpha_unit [OF assms(1)], of n]
    DDPM_init_lengths(2) [OF assms(1)] DDPM_init_buffers(3) [OF assms(1)] assms(2)
  by simp_all

lemma DDPM_init_beta_tilde_pos:
  assumes "DDPM_init steps ty hidden_dim n_layers = Inr self" "n < steps"
  shows "0 < beta_tilde self ! n"
proof (cases n)
  case 0
  with DDPM_init_buffers(5) [OF assms(1)] DDPM_init_beta_bounds(1) [OF assms]
  show ?thesis by simp
next
  case (Suc k)
  with assms(2) have k: "k < steps" by simp
  have b: "0 < beta self ! n" using DDPM_init_beta_bounds(1) [OF assms] by simp
  have p: "0 < 1 - alpha_bar self ! k" using DDPM_init_alpha_bar_unit(2) [OF assms(1) k] by simp
  have q: "0 < 1 - alpha_bar self ! n" using DDPM_init_alpha_bar_unit(2) [OF assms] by simp
  have "beta_tilde self ! n
      = beta self ! n * ((1 - alpha_bar self ! k) / (1 - alpha_bar self ! n))"
    using DDPM_init_buffers(6) [OF assms(1), of n] assms(2) Suc by simp
  with b p q show ?thesis by simp
qed

lemma DDPM_init_ok:
  assumes "0 < steps"
  shows "ty = ''resnet'' \<Longrightarrow>
           \<exists>self. DDPM_init steps ty hidden_dim n_layers = Inr self
             \<and> model self = ResNet 1 hidden_dim n_layers \<and> N self = steps"
    and "ty = ''unet'' \<Longrightarrow> n_layers \<le> 2 \<Longrightarrow>
           \<exists>self. DDPM_init steps ty hidden_dim n_layers = Inr self
             \<and> model self = MiniUnet 1 hidden_dim n_layers \<and> N self = steps"
proof -
  from schedule_Inr [OF assms] obtain a b ab bt where "schedule steps = Inr (a, b, ab, bt)"
    by blast
  then show "ty = ''resnet'' \<Longrightarrow>
           \<exists>self. DDPM_init steps ty hidden_dim n_layers = Inr self
             \<and> model self = ResNet 1 hidden_dim n_layers \<and> N self = steps"
    and "ty = ''unet'' \<Longrightarrow> n_layers \<le> 2 \<Longrightarrow>
           \<exists>self. DDPM_init steps ty hidden_dim n_layers = Inr self
             \<and> model self = MiniUnet 1 hidden_dim n_layers \<and> N self = steps"
    by (simp_all add: DDPM_init_def ResNet_init_def MiniUnet_init_def)
qed

subsection \<open>The concrete models are what the constructor builds\<close>

lemma ddpm1_init: "DDPM_init 1 ''resnet'' 16 2 = Inr ddpm1"
  by (simp add: DDPM_init_def ResNet_init_def schedule_def linspace_def cumprod_def ddpm1_def Let_def)

lemma ddpm2_init: "DDPM_init 2 ''resnet'' 16 2 = Inr ddpm2"
  by (simp add: DDPM_init_def ResNet_init_def schedule_def linspace_def cumprod_def ddpm2_def
      Let_def upt_rec numeral_2_eq_2)

lemma prod_list_take_Suc:
  "n < length xs \<Longrightarrow> prod_list (take (Suc n) xs) = (\<Prod>i\<le>n. xs ! i)"
proof (induction n)
  case 0
  then show ?case by (cases xs) simp_all
next
  case (Suc n)
  then show ?case by (simp add: take_Suc_conv_app_nth [of "Suc n"] mult.commute)
qed

section \<open>The noise schedule\<close>


lemma DDPM_init_ranges:
  assumes init: "DDPM_init steps ty hidden_dim n_layers = Inr self"
  shows "beta self = linspace (1 / 10000) (2 / 100) steps
       \<and> length (beta self) = steps \<and> length (alpha self) = steps
       \<and> length (alpha_bar self) = steps
       \<and> (\<forall>n < steps. 0 < beta self ! n \<and> beta self ! n < 1
                     \<and> alpha self ! n = 1 - beta self ! n
                     \<and> 0 < alpha self ! n \<and> alpha self ! n < 1
                     \<and> alpha_bar self ! n = (\<Prod>i\<le>n. alpha self ! i)
                     \<and> 0 < alpha_bar self ! n \<and> alpha_bar self ! n \<le> 1)
       \<and> (\<forall>i j. i \<le> j \<and> j < steps \<longrightarrow> alpha_bar self ! j \<le> alpha_bar self ! i)"
proof -
  have unit: "\<forall>j < length (alpha self). 0 < alpha self ! j \<and> alpha self ! j < 1"
    by (rule DDPM_init_alpha_unit [OF init])
  have len: "length (alpha self) = steps" by (rule DDPM_init_lengths(2) [OF init])
  have ab: "alpha_bar self = cumprod (alpha self)" by (rule DDPM_init_buffers(3) [OF init])
  have mono: "alpha_bar self ! j \<le> alpha_bar self ! i" if "i \<le> j" "j < steps" for i j
    using cumprod_antimono [OF unit, of i j] that len ab by simp
  have pt: "0 < beta self ! n \<and> beta self ! n < 1
          \<and> alpha self ! n = 1 - beta self ! n
          \<and> 0 < alpha self ! n \<and> alpha self ! n < 1
          \<and> alpha_bar self ! n = (\<Prod>i\<le>n. alpha self ! i)
          \<and> 0 < alpha_bar self ! n \<and> alpha_bar self ! n \<le> 1" if "n < steps" for n
  proof -
    have "alpha_bar self ! n = (\<Prod>i\<le>n. alpha self ! i)"
      using that ab len by (simp add: nth_cumprod prod_list_take_Suc)
    then show ?thesis
      using DDPM_init_beta_bounds [OF init that] DDPM_init_alpha_nth [OF init that]
        DDPM_init_alpha_bar_unit [OF init that] by simp
  qed
  show ?thesis
    using DDPM_init_buffers(1) [OF init] DDPM_init_lengths(1,2,3) [OF init] pt mono by blast
qed

text \<open>Every model that the constructor returns for \<open>steps\<close> diffusion steps carries the
  four lists of \<open>schedule steps\<close>, whatever its network.\<close>

lemma DDPM_init_same_schedule:
  assumes "schedule steps = Inr (a, b, ab, bt)"
    and "DDPM_init steps ty hidden_dim n_layers = Inr self"
  shows "alpha self = a \<and> beta self = b \<and> alpha_bar self = ab \<and> beta_tilde self = bt"
  using DDPM_init_Inr(2) [OF assms(2)] assms(1) by simp



text \<open>
  Claim C6. For every \<open>N \<ge> 1\<close>, the schedule is constructed (\<open>beta\<close> linearly spaced from
  \<open>1e-4\<close> to \<open>2e-2\<close>, \<open>alpha = 1 - beta\<close>, \<open>alpha_bar\<close> the cumulative product of
  \<open>alpha\<close>) and has every \<open>beta[n]\<close> and \<open>alpha[n]\<close> strictly between 0 and 1, and
  \<open>alpha_bar\<close> is non-increasing with every entry in \<open>(0, 1]\<close>.
\<close>

theorem schedule_ranges:
  assumes "1 \<le> steps"
  shows "\<exists>a b ab bt.
           schedule steps = Inr (a, b, ab, bt)
         \<and> b = linspace (1 / 10000) (2 / 100) steps
         \<and> length b = steps \<and> length a = steps \<and> length ab = steps
         \<and> (\<forall>n < steps. 0 < b ! n \<and> b ! n < 1
                       \<and> a ! n = 1 - b ! n
                       \<and> 0 < a ! n \<and> a ! n < 1
                       \<and> ab ! n = (\<Prod>i\<le>n. a ! i)
                       \<and> 0 < ab ! n \<and> ab ! n \<le> 1)
         \<and> (\<forall>i j. i \<le> j \<and> j < steps \<longrightarrow> ab ! j \<le> ab ! i)
         \<and> (\<exists>self. DDPM_init steps ''resnet'' hidden_dim n_layers = Inr self
                \<and> alpha self = a \<and> beta self = b \<and> alpha_bar self = ab
                \<and> beta_tilde self = bt)
         \<and> (\<forall>ty hd nl self. DDPM_init steps ty hd nl = Inr self \<longrightarrow>
                alpha self = a \<and> beta self = b \<and> alpha_bar self = ab \<and> beta_tilde self = bt)"
proof -
  from assms have "0 < steps" by simp
  from DDPM_init_ok(1) [OF this refl, of hidden_dim n_layers]
  obtain self where init: "DDPM_init steps ''resnet'' hidden_dim n_layers = Inr self" by blast
  have sch: "schedule steps = Inr (alpha self, beta self, alpha_bar self, beta_tilde self)"
    by (rule DDPM_init_Inr(2) [OF init])
  have same: "\<forall>ty hd nl self'. DDPM_init steps ty hd nl = Inr self' \<longrightarrow>
      alpha self' = alpha self \<and> beta self' = beta self \<and> alpha_bar self' = alpha_bar self
      \<and> beta_tilde self' = beta_tilde self"
    using DDPM_init_same_schedule [OF sch] by blast
  have here: "\<exists>self'. DDPM_init steps ''resnet'' hidden_dim n_layers = Inr self'
      \<and> alpha self' = alpha self \<and> beta self' = beta self \<and> alpha_bar self' = alpha_bar self
      \<and> beta_tilde self' = beta_tilde self"
    using init by blast
  note P = DDPM_init_ranges [OF init]
  show ?thesis
  proof (rule exI [of _ "alpha self"], rule exI [of _ "beta self"],
      rule exI [of _ "alpha_bar self"], rule exI [of _ "beta_tilde self"], intro conjI)
    show "schedule steps = Inr (alpha self, beta self, alpha_bar self, beta_tilde self)"
      by (rule sch)
    show "beta self = linspace (1 / 10000) (2 / 100) steps" using P by blast
    show "length (beta self) = steps" "length (alpha self) = steps"
      "length (alpha_bar self) = steps"
      using P by blast+
    show "\<forall>n < steps. 0 < beta self ! n \<and> beta self ! n < 1
                     \<and> alpha self ! n = 1 - beta self ! n
                     \<and> 0 < alpha self ! n \<and> alpha self ! n < 1
                     \<and> alpha_bar self ! n = (\<Prod>i\<le>n. alpha self ! i)
                     \<and> 0 < alpha_bar self ! n \<and> alpha_bar self ! n \<le> 1"
      using P by blast
    show "\<forall>i j. i \<le> j \<and> j < steps \<longrightarrow> alpha_bar self ! j \<le> alpha_bar self ! i"
      using P by blast
    show "\<exists>self'. DDPM_init steps ''resnet'' hidden_dim n_layers = Inr self'
      \<and> alpha self' = alpha self \<and> beta self' = beta self \<and> alpha_bar self' = alpha_bar self
      \<and> beta_tilde self' = beta_tilde self" by (rule here)
    show "\<forall>ty hd nl self'. DDPM_init steps ty hd nl = Inr self' \<longrightarrow>
      alpha self' = alpha self \<and> beta self' = beta self \<and> alpha_bar self' = alpha_bar self
      \<and> beta_tilde self' = beta_tilde self" by (rule same)
  qed
qed

theorem schedule_ranges_witness:
  "(1::nat) \<le> 2 \<and> DDPM_init 2 ''resnet'' 16 2 = Inr ddpm2
   \<and> schedule 2 = Inr (alpha ddpm2, beta ddpm2, alpha_bar ddpm2, beta_tilde ddpm2)
   \<and> 0 < beta ddpm2 ! 1 \<and> beta ddpm2 ! 1 < 1 \<and> 0 < alpha ddpm2 ! 1 \<and> alpha ddpm2 ! 1 < 1
   \<and> 0 < alpha_bar ddpm2 ! 1 \<and> alpha_bar ddpm2 ! 1 \<le> 1
   \<and> alpha_bar ddpm2 ! 1 \<le> alpha_bar ddpm2 ! 0"
proof -
  have "(1::nat) \<le> 2" by simp
  from schedule_ranges [OF this, of 16 2]
  obtain a b ab bt where r:
    "schedule 2 = Inr (a, b, ab, bt)"
    "\<forall>n < 2. 0 < b ! n \<and> b ! n < 1 \<and> a ! n = 1 - b ! n \<and> 0 < a ! n \<and> a ! n < 1
        \<and> ab ! n = (\<Prod>i\<le>n. a ! i) \<and> 0 < ab ! n \<and> ab ! n \<le> 1"
    "\<forall>i j. i \<le> j \<and> j < 2 \<longrightarrow> ab ! j \<le> ab ! i"
    "\<forall>ty hd nl self. DDPM_init 2 ty hd nl = Inr self \<longrightarrow>
        alpha self = a \<and> beta self = b \<and> alpha_bar self = ab \<and> beta_tilde self = bt"
    by (elim exE conjE)
  from r(4) ddpm2_init
  have e: "alpha ddpm2 = a" "beta ddpm2 = b" "alpha_bar ddpm2 = ab" "beta_tilde ddpm2 = bt"
    by blast+
  have one: "(1::nat) < 2" and le: "(0::nat) \<le> 1 \<and> (1::nat) < 2" by simp_all
  from r(2) one have "0 < b ! 1 \<and> b ! 1 < 1 \<and> 0 < a ! 1 \<and> a ! 1 < 1
      \<and> 0 < ab ! 1 \<and> ab ! 1 \<le> 1" by blast
  moreover from r(3) le have "ab ! 1 \<le> ab ! 0" by blast
  ultimately show ?thesis
    using r(1) ddpm2_init by (simp only: e simp_thms)
qed

section \<open>The Kullback-Leibler divergence of the autoencoder\<close>

lemma exp_eq_add_one_iff: "exp x = 1 + x \<longleftrightarrow> x = 0" for x :: real
proof
  assume eq: "exp x = 1 + x"
  show "x = 0"
  proof (rule ccontr)
    assume nz: "x \<noteq> 0"
    have half: "1 + x / 2 \<le> exp (x / 2)" by (rule exp_ge_add_one_self)
    have sq: "exp x = exp (x / 2) * exp (x / 2)" by (simp add: exp_add [symmetric])
    show False
    proof (cases "0 \<le> 1 + x / 2")
      case True
      with half have "(1 + x / 2) * (1 + x / 2) \<le> exp (x / 2) * exp (x / 2)"
        by (intro mult_mono) simp_all
      with sq eq have "(1 + x / 2) * (1 + x / 2) \<le> 1 + x" by simp
      then have "x * x / 4 \<le> 0" by (simp add: algebra_simps)
      moreover have "0 < x * x" using nz by (auto simp add: zero_less_mult_iff)
      ultimately show False by simp
    next
      case False
      then have "1 + x < 0" by simp
      moreover have "0 < exp x" by simp
      ultimately show False using eq by simp
    qed
  qed
qed simp


lemma kl_term_nonneg: "0 \<le> kl_term m l"
proof -
  have "1 + (l + l) \<le> exp (l + l)" by (rule exp_ge_add_one_self)
  moreover have "0 \<le> m * m" by simp
  ultimately show ?thesis unfolding kl_term_def by linarith
qed

lemma kl_term_zero_iff: "kl_term m l = 0 \<longleftrightarrow> m = 0 \<and> l = 0"
proof
  assume z: "kl_term m l = 0"
  have a: "1 + (l + l) \<le> exp (l + l)" by (rule exp_ge_add_one_self)
  have b: "0 \<le> m * m" by simp
  from z a b have "m * m = 0" "exp (l + l) = 1 + (l + l)" unfolding kl_term_def by linarith+
  then show "m = 0 \<and> l = 0" by (simp add: exp_eq_add_one_iff)
next
  assume "m = 0 \<and> l = 0"
  then show "kl_term m l = 0" by (simp add: kl_term_def)
qed

lemma sum_list_take_drop:
  "b + L \<le> length xs \<Longrightarrow> sum_list (take L (drop b xs)) = (\<Sum>j<L. xs ! (b + j))"
proof -
  assume le: "b + L \<le> length xs"
  then have len: "length (take L (drop b xs)) = L" by simp
  have "sum_list (take L (drop b xs)) = (\<Sum>j = 0..<L. take L (drop b xs) ! j)"
    using sum_list_sum_nth [of "take L (drop b xs)"] len by simp
  also have "\<dots> = (\<Sum>j = 0..<L. xs ! (b + j))"
    using le by (intro sum.cong) simp_all
  finally show ?thesis by (simp add: atLeast0LessThan)
qed

lemma kl_data:
  assumes "length (data mu) = n" "length (data logsigma) = n" "k < n"
  shows "data (tmap (\<lambda>v. v - 1)
           (ewise (-) (ewise (+) (tmap exp (ewise (+) logsigma logsigma)) (ewise (*) mu mu))
              (ewise (+) logsigma logsigma))) ! k
         = kl_term (data mu ! k) (data logsigma ! k)"
  using assms by (simp add: tmap_def ewise_def kl_term_def)

lemma kl_length:
  assumes "length (data mu) = n" "length (data logsigma) = n"
  shows "length (data (tmap (\<lambda>v. v - 1)
           (ewise (-) (ewise (+) (tmap exp (ewise (+) logsigma logsigma)) (ewise (*) mu mu))
              (ewise (+) logsigma logsigma)))) = n"
  using assms by (simp add: tmap_def ewise_def)

lemma kl_shape:
  "shape (tmap (\<lambda>v. v - 1)
           (ewise (-) (ewise (+) (tmap exp (ewise (+) logsigma logsigma)) (ewise (*) mu mu))
              (ewise (+) logsigma logsigma))) = shape logsigma"
  by (simp add: tmap_def ewise_def)

lemma kl_divergence_rows:
  assumes wf: "wf_tensor mu" "wf_tensor logsigma"
    and sh: "shape mu = [B, L]" "shape logsigma = [B, L]"
  shows "kl_divergence mu logsigma
       = Inr (map (\<lambda>b. (1 / 2) * (\<Sum>j<L. kl_term (entry2 mu b j) (entry2 logsigma b j)))
                [0..<B])"
proof -
  define t where "t = tmap (\<lambda>v. v - 1)
           (ewise (-) (ewise (+) (tmap exp (ewise (+) logsigma logsigma)) (ewise (*) mu mu))
              (ewise (+) logsigma logsigma))"
  have lm: "length (data mu) = B * L" and ll: "length (data logsigma) = B * L"
    using wf sh by (simp_all add: wf_tensor_def)
  have lt: "length (data t) = B * L" unfolding t_def by (rule kl_length [OF lm ll])
  have st: "shape t = [B, L]" unfolding t_def by (simp add: kl_shape sh)
  have row: "sum_list (take L (drop (b * L) (data t)))
           = (\<Sum>j<L. kl_term (entry2 mu b j) (entry2 logsigma b j))" if "b < B" for b
  proof -
    from that have "Suc b \<le> B" by simp
    then have "Suc b * L \<le> B * L" by (rule mult_le_mono1)
    then have le: "b * L + L \<le> length (data t)" by (simp add: lt add.commute)
    have "sum_list (take L (drop (b * L) (data t))) = (\<Sum>j<L. data t ! (b * L + j))"
      by (rule sum_list_take_drop [OF le])
    also have "\<dots> = (\<Sum>j<L. kl_term (entry2 mu b j) (entry2 logsigma b j))"
    proof (rule sum.cong)
      fix j assume "j \<in> {..<L}"
      then have "b * L + j < B * L" using le lt by simp
      then show "data t ! (b * L + j) = kl_term (entry2 mu b j) (entry2 logsigma b j)"
        unfolding t_def by (simp add: kl_data [OF lm ll] entry2_def sh)
    qed simp
    finally show ?thesis .
  qed
  have "sum_dim1 t = map (\<lambda>b. \<Sum>j<L. kl_term (entry2 mu b j) (entry2 logsigma b j)) [0..<B]"
    unfolding sum_dim1_def st using row by simp
  then show ?thesis
    unfolding kl_divergence_def Let_def t_def [symmetric] by (simp add: sh)
qed

lemma kl_term_eq: "kl_term m l = (exp l)\<^sup>2 + m\<^sup>2 - 2 * l - 1"
proof -
  have "exp (l + l) = exp l * exp l" by (rule exp_add)
  then show ?thesis by (simp add: kl_term_def power2_eq_square)
qed

text \<open>
  Claim C7. For every batch of \<open>(mu, logsigma)\<close> pairs, \<^verbatim>\<open>kl_divergence\<close> computes for
  each sample one half of the sum over the latent dimensions of
  \<open>sigma^2 + mu^2 - 2 * logsigma - 1\<close> with \<open>sigma = exp logsigma\<close>, and this value is zero
  if and only if \<open>mu = 0\<close> and \<open>logsigma = 0\<close> in every latent dimension.
\<close>

theorem kl_divergence_zero_iff:
  assumes "wf_tensor mu" and "wf_tensor logsigma"
    and "shape mu = [B, L]" and "shape logsigma = [B, L]"
  shows "\<exists>kl. kl_divergence mu logsigma = Inr kl \<and> length kl = B
       \<and> (\<forall>b < B.
            kl ! b = 1 / 2 * (\<Sum>j<L. (exp (entry2 logsigma b j))\<^sup>2 + (entry2 mu b j)\<^sup>2
                                      - 2 * entry2 logsigma b j - 1)
          \<and> (kl ! b = 0 \<longleftrightarrow> (\<forall>j < L. entry2 mu b j = 0 \<and> entry2 logsigma b j = 0)))"
proof -
  define kl where
    "kl = map (\<lambda>b. (1 / 2) * (\<Sum>j<L. kl_term (entry2 mu b j) (entry2 logsigma b j))) [0..<B]"
  have res: "kl_divergence mu logsigma = Inr kl"
    unfolding kl_def by (rule kl_divergence_rows [OF assms])
  have len: "length kl = B" by (simp add: kl_def)
  have row: "kl ! b = 1 / 2 * (\<Sum>j<L. (exp (entry2 logsigma b j))\<^sup>2 + (entry2 mu b j)\<^sup>2
                                      - 2 * entry2 logsigma b j - 1)" if "b < B" for b
    using that by (simp add: kl_def kl_term_eq)
  have zero: "kl ! b = 0 \<longleftrightarrow> (\<forall>j < L. entry2 mu b j = 0 \<and> entry2 logsigma b j = 0)"
    if "b < B" for b
  proof -
    have "kl ! b = 0 \<longleftrightarrow> (\<Sum>j<L. kl_term (entry2 mu b j) (entry2 logsigma b j)) = 0"
      using that by (simp add: kl_def)
    also have "\<dots> \<longleftrightarrow> (\<forall>j \<in> {..<L}. kl_term (entry2 mu b j) (entry2 logsigma b j) = 0)"
      by (rule sum_nonneg_eq_0_iff) (simp_all add: kl_term_nonneg)
    also have "\<dots> \<longleftrightarrow> (\<forall>j < L. entry2 mu b j = 0 \<and> entry2 logsigma b j = 0)"
      by (auto simp add: kl_term_zero_iff)
    finally show ?thesis .
  qed
  from res len row zero show ?thesis by blast
qed

theorem kl_divergence_zero_iff_witness:
  "wf_tensor \<lparr>shape = [1, 2], data = [0, 0]\<rparr>
   \<and> shape \<lparr>shape = [1, 2], data = [0, 0]\<rparr> = [1, 2]
   \<and> kl_divergence \<lparr>shape = [1, 2], data = [0, 0]\<rparr> \<lparr>shape = [1, 2], data = [0, 0]\<rparr> = Inr [0]"
proof -
  let ?t = "\<lparr>shape = [1, 2], data = [0, 0]\<rparr> :: tensor"
  have wf: "wf_tensor ?t" by (simp add: wf_tensor_def)
  have sh: "shape ?t = [1, 2]" by simp
  from kl_divergence_zero_iff [OF wf wf sh sh]
  obtain kl where kl: "kl_divergence ?t ?t = Inr kl" "length kl = 1"
    "kl ! 0 = 0 \<longleftrightarrow> (\<forall>j < 2. entry2 ?t 0 j = 0 \<and> entry2 ?t 0 j = 0)"
    by auto
  have "\<forall>j < 2. entry2 ?t 0 j = 0" by (simp add: entry2_def less_Suc_eq numeral_2_eq_2)
  with kl(3) have "kl ! 0 = 0" by simp
  with kl(2) have "kl = [0]" by (cases kl) simp_all
  with kl(1) wf sh show ?thesis by simp
qed

section \<open>Indexing, broadcasting and row-major positions\<close>

lemma and_then_Inr: "and_then (Inr v) f = f v"
  by (simp add: and_then_def)

lemma gather_Inr:
  "list_all (index_ok (length buf)) n \<Longrightarrow>
     gather buf n = Inr (map (\<lambda>i. buf ! wrap_index (length buf) i) n)"
  by (simp add: gather_def)

lemma in_range_index_ok: "in_range steps n \<Longrightarrow> list_all (index_ok steps) n"
  by (auto simp: in_range_def index_ok_def list_all_iff)

lemma in_range_prev_index_ok:
  "in_range steps n \<Longrightarrow> list_all (index_ok steps) (map (\<lambda>i. i - 1) n)"
  by (auto simp: in_range_def index_ok_def list_all_iff)

lemma in_range_nth: "in_range steps n \<Longrightarrow> b < length n \<Longrightarrow> 0 \<le> n ! b \<and> n ! b < int steps"
  by (simp add: in_range_def list_all_length)

lemma wrap_index_nonneg: "0 \<le> i \<Longrightarrow> wrap_index len i = nat i"
  by (simp add: wrap_index_def)

lemma wrap_index_minus_one: "wrap_index len (0 - 1) = len - 1"
  by (simp add: wrap_index_def nat_diff_distrib')

lemma gather_in_range:
  assumes "in_range (length buf) n"
  shows "gather buf n = Inr (map (\<lambda>i. buf ! nat i) n)"
proof -
  have "map (\<lambda>i. buf ! wrap_index (length buf) i) n = map (\<lambda>i. buf ! nat i) n"
    using assms by (auto simp: in_range_def list_all_iff wrap_index_nonneg)
  with gather_Inr [OF in_range_index_ok [OF assms]] show ?thesis by simp
qed

lemma gather_prev_in_range:
  assumes "in_range (length buf) n"
  shows "gather buf (map (\<lambda>i. i - 1) n)
       = Inr (map (\<lambda>i. buf ! wrap_index (length buf) (i - 1)) n)"
  using gather_Inr [OF in_range_prev_index_ok [OF assms]] by (simp add: comp_def)

text \<open>Row-major positions of an image batch.\<close>

lemma position4:
  fixes b c h w B C H W :: nat
  assumes "b < B" "c < C" "h < H" "w < W"
  shows "((b * C + c) * H + h) * W + w < B * (C * (H * W))"
    and "(((b * C + c) * H + h) * W + w) div (C * (H * W)) = b"
proof -
  define r where "r = (c * H + h) * W + w"
  have "c * H + h < C * H"
  proof -
    have "c * H + h < c * H + H" using assms(3) by simp
    also have "\<dots> = Suc c * H" by simp
    also have "\<dots> \<le> C * H" using assms(2) by (intro mult_le_mono1) simp
    finally show ?thesis .
  qed
  then have "Suc (c * H + h) \<le> C * H" by simp
  then have "Suc (c * H + h) * W \<le> C * H * W" by (rule mult_le_mono1)
  moreover have "r < Suc (c * H + h) * W" using assms(4) by (simp add: r_def)
  ultimately have r: "r < C * (H * W)" by (simp add: mult.assoc)
  have k: "((b * C + c) * H + h) * W + w = b * (C * (H * W)) + r"
    by (simp add: r_def algebra_simps)
  have "b * (C * (H * W)) + r < b * (C * (H * W)) + C * (H * W)" using r by arith
  also have "\<dots> = Suc b * (C * (H * W))" by simp
  also have "\<dots> \<le> B * (C * (H * W))" using assms(1) by (intro mult_le_mono1) simp
  finally show "((b * C + c) * H + h) * W + w < B * (C * (H * W))" by (simp add: k)
  define m where "m = C * (H * W)"
  have rm: "r < m" using r by (simp add: m_def)
  then have "m \<noteq> 0" by auto
  then have "(b * m + r) div m = b + r div m" by (rule div_mult_self3)
  with rm have "(b * m + r) div m = b" by simp
  then have "(b * (C * (H * W)) + r) div (C * (H * W)) = b" by (simp only: m_def)
  then show "(((b * C + c) * H + h) * W + w) div (C * (H * W)) = b"
    by (simp only: k)
qed

lemma inner4: "shape x = [B, C, H, W] \<Longrightarrow> inner x = C * (H * W)"
  by (simp add: inner_def)

lemma entry4_data:
  "shape x = [B, C, H, W] \<Longrightarrow> entry4 x b c h w = data x ! (((b * C + c) * H + h) * W + w)"
  by (simp add: entry4_def eval_nat_numeral)

section \<open>Reconstructing the clean image\<close>

lemma ImageBatch_length:
  assumes "is_ImageBatch x" "wf_tensor x"
  shows "length (data x) = batch_size_of x * inner x"
proof -
  from assms(1) obtain B rest where "shape x = B # rest"
    by (cases "shape x") (simp_all add: is_ImageBatch_def)
  with assms(2) show ?thesis by (simp add: wf_tensor_def inner_def batch_size_of_def)
qed

lemma batch_index_less:
  assumes "is_ImageBatch x" "wf_tensor x" "length n = batch_size_of x" "k < length (data x)"
  shows "k div inner x < length n"
  using assms ImageBatch_length [OF assms(1,2)] by (simp add: less_mult_imp_div_less)

lemma same_shape_inner: "shape y = shape x \<Longrightarrow> inner y = inner x"
  by (simp add: inner_def)

lemma same_shape_length:
  "shape y = shape x \<Longrightarrow> wf_tensor x \<Longrightarrow> wf_tensor y \<Longrightarrow> length (data y) = length (data x)"
  by (simp add: wf_tensor_def)

lemma shape_ops:
  "shape (tmap f t) = shape t" "shape (ewise g x y) = shape x"
  "shape (bcast_l g a x) = shape x" "shape (bcast_r g x a) = shape x"
  by (simp_all add: tmap_def ewise_def bcast_l_def bcast_r_def)

lemma inner_ops:
  "inner (tmap f t) = inner t" "inner (ewise g x y) = inner x"
  "inner (bcast_l g a x) = inner x" "inner (bcast_r g x a) = inner x"
  by (simp_all add: inner_def shape_ops)

lemma data_ops:
  "data (tmap f t) = map f (data t)"
  "data (ewise g x y) = map2 g (data x) (data y)"
  "data (bcast_l g a x)
     = map (\<lambda>k. g (data a ! (k div inner x)) (data x ! k)) [0..<length (data x)]"
  "data (bcast_r g x a)
     = map (\<lambda>k. g (data x ! k) (data a ! (k div inner x))) [0..<length (data x)]"
  "data (batch_broadcast v b) = v"
  by (simp_all add: tmap_def ewise_def bcast_l_def bcast_r_def batch_broadcast_def)

lemma map2_upt:
  assumes "length xs = m" "length ys = m"
  shows "map2 g xs ys = map (\<lambda>k. g (xs ! k) (ys ! k)) [0..<m]"
  using assms by (intro nth_equalityI) simp_all

lemma tensor_eqI: "shape s = shape t \<Longrightarrow> data s = data t \<Longrightarrow> s = t" for s t :: tensor
  by simp

lemma estimate_x0_data:
  assumes g: "is_ImageBatch z_n" "is_ImageBatch epsilon" "shape epsilon = shape z_n"
      "length n = batch_size_of z_n"
    and wf: "wf_tensor z_n" "wf_tensor epsilon"
    and r: "in_range (length (alpha_bar self)) n"
  shows "estimate_x0 self z_n n epsilon
       = Inr \<lparr>shape = shape z_n,
              data = map (\<lambda>k. (data z_n ! k
                                 - sqrt (1 - alpha_bar self ! nat (n ! (k div inner z_n)))
                                   * data epsilon ! k)
                               / sqrt (alpha_bar self ! nat (n ! (k div inner z_n))))
                       [0..<length (data z_n)]\<rparr>"
proof -
  define ab where "ab = map (\<lambda>i. alpha_bar self ! nat i) n"
  define bb where "bb = batch_broadcast ab z_n"
  define num where
    "num = ewise (-) z_n (bcast_l (*) (tmap sqrt (tmap (\<lambda>a. 1 - a) bb)) epsilon)"
  define x_0 where "x_0 = bcast_r (/) num (tmap sqrt bb)"
  have le: "length (data epsilon) = length (data z_n)"
    by (rule same_shape_length [OF g(3) wf])
  have ie: "inner epsilon = inner z_n" by (rule same_shape_inner [OF g(3)])
  have b: "k div inner z_n < length n" if "k < length (data z_n)" for k
    by (rule batch_index_less [OF g(1) wf(1) g(4) that])
  have dnum: "data num
      = map (\<lambda>k. data z_n ! k
                 - sqrt (1 - alpha_bar self ! nat (n ! (k div inner z_n))) * data epsilon ! k)
          [0..<length (data z_n)]"
  proof -
    have "data num = map (\<lambda>k. data z_n ! k
        - data (bcast_l (*) (tmap sqrt (tmap (\<lambda>a. 1 - a) bb)) epsilon) ! k)
          [0..<length (data z_n)]"
      unfolding num_def data_ops(2) by (rule map2_upt) (simp_all add: data_ops le)
    also have "\<dots> = map (\<lambda>k. data z_n ! k
                 - sqrt (1 - alpha_bar self ! nat (n ! (k div inner z_n))) * data epsilon ! k)
          [0..<length (data z_n)]"
      using b by (simp add: data_ops le ie bb_def ab_def)
    finally show ?thesis .
  qed
  have dx: "data x_0
      = map (\<lambda>k. (data z_n ! k
                   - sqrt (1 - alpha_bar self ! nat (n ! (k div inner z_n))) * data epsilon ! k)
                 / sqrt (alpha_bar self ! nat (n ! (k div inner z_n))))
          [0..<length (data z_n)]"
    using b unfolding x_0_def data_ops(4) dnum
    by (simp add: inner_ops num_def data_ops(1,5) bb_def ab_def)
  have sx: "shape x_0 = shape z_n" by (simp add: x_0_def num_def shape_ops)
  have ix: "is_ImageBatch x_0" using g(1) sx by (simp add: is_ImageBatch_def)
  have "estimate_x0 self z_n n epsilon = Inr x_0"
    using g sx ix
    by (simp add: estimate_x0_def gather_in_range [OF r] and_then_Inr Let_def
        x_0_def num_def bb_def ab_def)
  moreover have "x_0 = \<lparr>shape = shape z_n,
              data = map (\<lambda>k. (data z_n ! k
                                 - sqrt (1 - alpha_bar self ! nat (n ! (k div inner z_n)))
                                   * data epsilon ! k)
                               / sqrt (alpha_bar self ! nat (n ! (k div inner z_n))))
                       [0..<length (data z_n)]\<rparr>"
    by (rule tensor_eqI) (simp_all add: sx dx)
  ultimately show ?thesis by simp
qed

lemma pixel_eqI:
  assumes "shape t = [1, 1, 1, 1]" "wf_tensor t" "entry4 t 0 0 0 0 = v"
  shows "t = pixel v"
proof -
  from assms(1,2) have "length (data t) = 1" by (simp add: wf_tensor_def)
  then obtain d where d: "data t = [d]" by (cases "data t") simp_all
  with assms(1,3) have "d = v" by (simp add: entry4_def)
  with d assms(1) show ?thesis by (simp add: pixel_def)
qed

lemma pixel_facts:
  "wf_tensor (pixel v)" "shape (pixel v) = [1, 1, 1, 1]" "entry4 (pixel v) 0 0 0 0 = v"
  "is_ImageBatch (pixel v)" "data (pixel v) = [v]"
  by (simp_all add: pixel_def wf_tensor_def entry4_def is_ImageBatch_def)

lemma ImageBatch4: "shape x = [B, C, H, W] \<Longrightarrow> is_ImageBatch x \<and> batch_size_of x = B"
  by (simp add: is_ImageBatch_def batch_size_of_def)

text \<open>
  Claim C3. For every \<open>z_n\<close>, every in-range noise level vector \<open>n\<close> and every noise
  estimate \<open>epsilon\<close>, \<^verbatim>\<open>estimate_x0\<close> returns
  \<open>(z_n - sqrt (1 - alpha_bar[n]) * epsilon) / sqrt (alpha_bar[n])\<close>, the schedule value
  of batch element \<open>b\<close> being the one at level \<open>n[b]\<close> for every entry of that element.
\<close>

theorem estimate_x0_formula:
  assumes "DDPM_init steps ty hidden_dim n_layers = Inr self"
    and "wf_tensor z_n" and "wf_tensor epsilon"
    and "shape z_n = [B, C, H, W]" and "shape epsilon = [B, C, H, W]"
    and "length n = B" and "in_range steps n"
  shows "\<exists>x_0. estimate_x0 self z_n n epsilon = Inr x_0
       \<and> shape x_0 = [B, C, H, W] \<and> wf_tensor x_0
       \<and> (\<forall>b < B. \<forall>c < C. \<forall>h < H. \<forall>w < W.
            entry4 x_0 b c h w
              = (entry4 z_n b c h w
                   - sqrt (1 - alpha_bar self ! nat (n ! b)) * entry4 epsilon b c h w)
                / sqrt (alpha_bar self ! nat (n ! b)))"
proof -
  define x_0 where "x_0 = \<lparr>shape = shape z_n,
              data = map (\<lambda>k. (data z_n ! k
                                 - sqrt (1 - alpha_bar self ! nat (n ! (k div inner z_n)))
                                   * data epsilon ! k)
                               / sqrt (alpha_bar self ! nat (n ! (k div inner z_n))))
                       [0..<length (data z_n)]\<rparr>"
  have r: "in_range (length (alpha_bar self)) n"
    using assms(7) DDPM_init_lengths(3) [OF assms(1)] by simp
  have res: "estimate_x0 self z_n n epsilon = Inr x_0"
    unfolding x_0_def using ImageBatch4 [OF assms(4)] ImageBatch4 [OF assms(5)] assms(2-6) r
    by (intro estimate_x0_data) simp_all
  have len: "length (data z_n) = B * (C * (H * W))"
    using assms(2,4) by (simp add: wf_tensor_def)
  have sh: "shape x_0 = [B, C, H, W]" by (simp add: x_0_def assms(4))
  have wf: "wf_tensor x_0" by (simp add: wf_tensor_def x_0_def len assms(4))
  have ent: "entry4 x_0 b c h w
      = (entry4 z_n b c h w - sqrt (1 - alpha_bar self ! nat (n ! b)) * entry4 epsilon b c h w)
        / sqrt (alpha_bar self ! nat (n ! b))"
    if "b < B" "c < C" "h < H" "w < W" for b c h w
  proof -
    have "data x_0 ! k = (data z_n ! k
                 - sqrt (1 - alpha_bar self ! nat (n ! (k div (C * (H * W))))) * data epsilon ! k)
               / sqrt (alpha_bar self ! nat (n ! (k div (C * (H * W)))))"
      if "k < B * (C * (H * W))" for k
      using that by (simp add: x_0_def len inner4 [OF assms(4)])
    from this [OF position4(1) [OF that]] position4(2) [OF that] show ?thesis
      by (simp add: entry4_data [OF sh] entry4_data [OF assms(4)] entry4_data [OF assms(5)])
  qed
  from res sh wf ent show ?thesis by blast
qed

theorem estimate_x0_formula_witness:
  "DDPM_init 1 ''resnet'' 16 2 = Inr ddpm1
   \<and> wf_tensor (pixel 2) \<and> wf_tensor (pixel 1)
   \<and> shape (pixel 2) = [1, 1, 1, 1] \<and> shape (pixel 1) = [1, 1, 1, 1]
   \<and> length [0 :: int] = 1 \<and> in_range 1 [0]
   \<and> estimate_x0 ddpm1 (pixel 2) [0] (pixel 1)
       = Inr (pixel ((2 - sqrt (1 - 9999 / 10000) * 1) / sqrt (9999 / 10000)))"
proof -
  have r: "in_range 1 [0]" by (simp add: in_range_def)
  have l: "length [0 :: int] = 1" by simp
  from estimate_x0_formula [OF ddpm1_init pixel_facts(1) pixel_facts(1) pixel_facts(2)
      pixel_facts(2) l r, of 2 1]
  obtain x_0 where x: "estimate_x0 ddpm1 (pixel 2) [0] (pixel 1) = Inr x_0"
      "shape x_0 = [1, 1, 1, 1]" "wf_tensor x_0"
      "entry4 x_0 0 0 0 0
        = (entry4 (pixel 2) 0 0 0 0
             - sqrt (1 - alpha_bar ddpm1 ! nat ([0] ! 0)) * entry4 (pixel 1) 0 0 0 0)
          / sqrt (alpha_bar ddpm1 ! nat ([0] ! 0))"
    by auto
  from x(4) have "entry4 x_0 0 0 0 0 = (2 - sqrt (1 - 9999 / 10000) * 1) / sqrt (9999 / 10000)"
    by (simp add: pixel_facts ddpm1_def)
  from pixel_eqI [OF x(2,3) this] x(1) ddpm1_init r show ?thesis by (simp add: pixel_facts)
qed

section \<open>The forward noising map of the loss\<close>

lemma simplified_loss_z_n_data:
  assumes g: "is_ImageBatch x0" "is_ImageBatch epsilon" "shape epsilon = shape x0"
      "length n = batch_size_of x0"
    and wf: "wf_tensor x0" "wf_tensor epsilon"
    and r: "in_range (length (alpha_bar self)) n"
  shows "simplified_loss_z_n self x0 n epsilon
       = Inr \<lparr>shape = shape x0,
              data = map (\<lambda>k. alpha_bar self ! nat (n ! (k div inner x0)) * data x0 ! k
                               + sqrt (1 - alpha_bar self ! nat (n ! (k div inner x0)))
                                 * data epsilon ! k)
                       [0..<length (data x0)]\<rparr>"
proof -
  define ab where "ab = map (\<lambda>i. alpha_bar self ! nat i) n"
  define z1 where "z1 = bcast_l (*) (batch_broadcast ab x0) x0"
  define z2 where
    "z2 = bcast_l (*) (batch_broadcast (map (\<lambda>a. sqrt (1 - a)) ab) epsilon) epsilon"
  have le: "length (data epsilon) = length (data x0)"
    by (rule same_shape_length [OF g(3) wf])
  have ie: "inner epsilon = inner x0" by (rule same_shape_inner [OF g(3)])
  have b: "k div inner x0 < length n" if "k < length (data x0)" for k
    by (rule batch_index_less [OF g(1) wf(1) g(4) that])
  have d1: "data z1 = map (\<lambda>k. alpha_bar self ! nat (n ! (k div inner x0)) * data x0 ! k)
      [0..<length (data x0)]"
    using b by (simp add: z1_def data_ops ab_def)
  have d2: "data z2
      = map (\<lambda>k. sqrt (1 - alpha_bar self ! nat (n ! (k div inner x0))) * data epsilon ! k)
          [0..<length (data x0)]"
    using b by (simp add: z2_def data_ops ab_def le ie)
  have "data (ewise (+) z1 z2)
      = map (\<lambda>k. data z1 ! k + data z2 ! k) [0..<length (data x0)]"
    unfolding data_ops(2) by (rule map2_upt) (simp_all add: d1 d2)
  also have "\<dots> = map (\<lambda>k. alpha_bar self ! nat (n ! (k div inner x0)) * data x0 ! k
                               + sqrt (1 - alpha_bar self ! nat (n ! (k div inner x0)))
                                 * data epsilon ! k)
                       [0..<length (data x0)]"
    by (simp add: d1 d2)
  finally have d: "data (ewise (+) z1 z2)
      = map (\<lambda>k. alpha_bar self ! nat (n ! (k div inner x0)) * data x0 ! k
                               + sqrt (1 - alpha_bar self ! nat (n ! (k div inner x0)))
                                 * data epsilon ! k)
                       [0..<length (data x0)]" .
  have sh: "shape (ewise (+) z1 z2) = shape x0" by (simp add: shape_ops z1_def)
  have "simplified_loss_z_n self x0 n epsilon = Inr (ewise (+) z1 z2)"
    by (simp add: simplified_loss_z_n_def gather_in_range [OF r] and_then_Inr Let_def
        z1_def z2_def ab_def)
  moreover have "ewise (+) z1 z2 = \<lparr>shape = shape x0,
              data = map (\<lambda>k. alpha_bar self ! nat (n ! (k div inner x0)) * data x0 ! k
                               + sqrt (1 - alpha_bar self ! nat (n ! (k div inner x0)))
                                 * data epsilon ! k)
                       [0..<length (data x0)]\<rparr>"
    by (rule tensor_eqI) (simp_all add: sh d)
  ultimately show ?thesis by simp
qed

lemma sqrt_neq_self:
  assumes "0 < a" "a < 1"
  shows "sqrt a \<noteq> a"
proof
  assume e: "sqrt a = a"
  have "sqrt a * sqrt a = a" using assms(1) by simp
  with e have "a * a = a" by simp
  with assms show False by simp
qed

lemma pixel_neq: "v \<noteq> w \<Longrightarrow> pixel v \<noteq> pixel w"
  by (simp add: pixel_def)

lemma ddpm2_z_n:
  "simplified_loss_z_n ddpm2 (pixel x) [1] (pixel e)
     = Inr (pixel (489951 / 500000 * x + sqrt (1 - 489951 / 500000) * e))"
proof -
  have r: "in_range (length (alpha_bar ddpm2)) [1]" by (simp add: ddpm2_def in_range_def)
  have "simplified_loss_z_n ddpm2 (pixel x) [1] (pixel e)
      = Inr \<lparr>shape = shape (pixel x),
              data = map (\<lambda>k. alpha_bar ddpm2 ! nat ([1] ! (k div inner (pixel x)))
                                 * data (pixel x) ! k
                               + sqrt (1 - alpha_bar ddpm2 ! nat ([1] ! (k div inner (pixel x))))
                                 * data (pixel e) ! k)
                       [0..<length (data (pixel x))]\<rparr>"
    by (rule simplified_loss_z_n_data [OF _ _ _ _ _ _ r])
       (simp_all add: pixel_facts batch_size_of_def)
  also have "\<dots> = Inr (pixel (489951 / 500000 * x + sqrt (1 - 489951 / 500000) * e))"
    by (simp add: pixel_def inner_def ddpm2_def)
  finally show ?thesis .
qed

lemma ddpm2_estimate_x0:
  "estimate_x0 ddpm2 (pixel z) [1] (pixel e)
     = Inr (pixel ((z - sqrt (1 - 489951 / 500000) * e) / sqrt (489951 / 500000)))"
proof -
  have r: "in_range (length (alpha_bar ddpm2)) [1]" by (simp add: ddpm2_def in_range_def)
  have "estimate_x0 ddpm2 (pixel z) [1] (pixel e)
      = Inr \<lparr>shape = shape (pixel z),
              data = map (\<lambda>k. (data (pixel z) ! k
                                 - sqrt (1 - alpha_bar ddpm2 ! nat ([1] ! (k div inner (pixel z))))
                                   * data (pixel e) ! k)
                               / sqrt (alpha_bar ddpm2 ! nat ([1] ! (k div inner (pixel z)))))
                       [0..<length (data (pixel z))]\<rparr>"
    by (rule estimate_x0_data [OF _ _ _ _ _ _ r])
       (simp_all add: pixel_facts batch_size_of_def)
  also have "\<dots> = Inr (pixel ((z - sqrt (1 - 489951 / 500000) * e) / sqrt (489951 / 500000)))"
    by (simp add: pixel_def inner_def ddpm2_def)
  finally show ?thesis .
qed

lemma round_trip_scales:
  assumes init: "DDPM_init steps ty hidden_dim n_layers = Inr self"
    and g: "is_ImageBatch x0" "is_ImageBatch epsilon" "shape epsilon = shape x0"
      "length n = batch_size_of x0"
    and wf: "wf_tensor x0" "wf_tensor epsilon"
    and r: "in_range steps n"
  shows "and_then (simplified_loss_z_n self x0 n epsilon)
           (\<lambda>z_n. estimate_x0 self z_n n epsilon)
       = Inr \<lparr>shape = shape x0,
              data = map (\<lambda>k. sqrt (alpha_bar self ! nat (n ! (k div inner x0))) * data x0 ! k)
                       [0..<length (data x0)]\<rparr>"
proof -
  define z_n where "z_n = \<lparr>shape = shape x0,
              data = map (\<lambda>k. alpha_bar self ! nat (n ! (k div inner x0)) * data x0 ! k
                               + sqrt (1 - alpha_bar self ! nat (n ! (k div inner x0)))
                                 * data epsilon ! k)
                       [0..<length (data x0)]\<rparr>"
  have r': "in_range (length (alpha_bar self)) n"
    using r DDPM_init_lengths(3) [OF init] by simp
  have fw: "simplified_loss_z_n self x0 n epsilon = Inr z_n"
    unfolding z_n_def by (rule simplified_loss_z_n_data [OF g wf r'])
  have sz: "shape z_n = shape x0" and lz: "length (data z_n) = length (data x0)"
    by (simp_all add: z_n_def)
  have iz: "inner z_n = inner x0" by (rule same_shape_inner [OF sz])
  have wz: "wf_tensor z_n" using wf(1) by (simp add: wf_tensor_def sz lz)
  have gz: "is_ImageBatch z_n" "shape epsilon = shape z_n" "length n = batch_size_of z_n"
    using g by (simp_all add: is_ImageBatch_def batch_size_of_def sz)
  have b: "k div inner x0 < length n" if "k < length (data x0)" for k
    by (rule batch_index_less [OF g(1) wf(1) g(4) that])
  have pos: "0 < alpha_bar self ! nat (n ! (k div inner x0))" if "k < length (data x0)" for k
  proof -
    from in_range_nth [OF r b [OF that]]
    have "nat (n ! (k div inner x0)) < steps" by linarith
    then show ?thesis by (rule DDPM_init_alpha_bar_unit(1) [OF init])
  qed
  have "map (\<lambda>k. (data z_n ! k
                     - sqrt (1 - alpha_bar self ! nat (n ! (k div inner x0))) * data epsilon ! k)
                   / sqrt (alpha_bar self ! nat (n ! (k div inner x0))))
          [0..<length (data x0)]
      = map (\<lambda>k. sqrt (alpha_bar self ! nat (n ! (k div inner x0))) * data x0 ! k)
          [0..<length (data x0)]"
  proof (rule map_cong [OF refl])
    fix k assume "k \<in> set [0..<length (data x0)]"
    then have k: "k < length (data x0)" by simp
    define a where "a = alpha_bar self ! nat (n ! (k div inner x0))"
    have a: "0 < a" unfolding a_def by (rule pos [OF k])
    then have "a / sqrt a = sqrt a" by (simp add: real_div_sqrt)
    then have "a * data x0 ! k / sqrt a = sqrt a * data x0 ! k"
      by (metis times_divide_eq_left)
    then show "(data z_n ! k - sqrt (1 - alpha_bar self ! nat (n ! (k div inner x0)))
                 * data epsilon ! k) / sqrt (alpha_bar self ! nat (n ! (k div inner x0)))
        = sqrt (alpha_bar self ! nat (n ! (k div inner x0))) * data x0 ! k"
      using k by (simp add: z_n_def a_def)
  qed
  with estimate_x0_data [OF gz(1) g(2) gz(2,3) wz wf(2) r'] fw
  show ?thesis by (simp add: and_then_Inr sz lz iz)
qed

text \<open>
  Claim C2. For every clean image batch \<open>x0\<close>, every in-range noise level vector \<open>n\<close> and
  every noise tensor \<open>epsilon\<close>, \<^verbatim>\<open>simplified_loss\<close> forms the noisy sample as
  \<open>z_n = sqrt (alpha_bar[n]) * x0 + sqrt (1 - alpha_bar[n]) * epsilon\<close>.

  The code does not: line 214 multiplies \<open>x0\<close> by \<open>alpha_bar[n]\<close> itself, without the square
  root that line 215 and \<^verbatim>\<open>estimate_x0\<close> take (lemma \<open>simplified_loss_z_n_data\<close>). With
  two diffusion steps, the clean pixel 1, the noise 0 and the level 1, the noisy sample is
  \<open>alpha_bar[1] = 489951 / 500000\<close> and not its square root, and the loss against a network
  that returns its input is computed from that sample.
\<close>

theorem simplified_loss_z_n_misses_sqrt:
  "simplified_loss_z_n ddpm2 (pixel 1) [1] (pixel 0) = Inr (pixel (489951 / 500000))
   \<and> pixel (489951 / 500000)
       \<noteq> pixel (sqrt (alpha_bar ddpm2 ! 1) * 1 + sqrt (1 - alpha_bar ddpm2 ! 1) * 0)
   \<and> simplified_loss (\<lambda>net z n. Inr z) ddpm2 (pixel 1) [1] (pixel 0)
       = Inr ((0 - 489951 / 500000)\<^sup>2)"
proof -
  have z: "simplified_loss_z_n ddpm2 (pixel 1) [1] (pixel 0) = Inr (pixel (489951 / 500000))"
    using ddpm2_z_n [of 1 0] by simp
  have "sqrt (489951 / 500000) \<noteq> (489951 / 500000 :: real)"
    by (rule sqrt_neq_self) simp_all
  then have ne: "pixel (489951 / 500000)
       \<noteq> pixel (sqrt (alpha_bar ddpm2 ! 1) * 1 + sqrt (1 - alpha_bar ddpm2 ! 1) * 0)"
    by (simp add: ddpm2_def pixel_def)
  have "simplified_loss (\<lambda>net z n. Inr z) ddpm2 (pixel 1) [1] (pixel 0)
       = Inr ((0 - 489951 / 500000)\<^sup>2)"
    by (simp add: simplified_loss_def z and_then_Inr forward_def pixel_facts batch_size_of_def
        ewise_def Let_def is_ImageBatch_def)
  with z ne show ?thesis by simp
qed

text \<open>
  Claim C1. \<^verbatim>\<open>estimate_x0\<close> is the exact inverse of the forward noising map used in
  \<^verbatim>\<open>simplified_loss\<close>: applied to the \<open>z_n\<close> built from \<open>(x0, n, epsilon)\<close>, with the same
  \<open>n\<close> and the true \<open>epsilon\<close>, it recovers \<open>x0\<close>.

  On the code the round trip returns \<open>sqrt (alpha_bar[n]) * x0\<close> (lemma
  \<open>round_trip_scales\<close>), because of the square root missing in line 214. With two diffusion
  steps, the clean pixel 1, the noise 1 and the level 1 it returns
  \<open>sqrt (489951 / 500000)\<close>, which is not 1.
\<close>

theorem estimate_x0_not_inverse:
  "simplified_loss_z_n ddpm2 (pixel 1) [1] (pixel 1)
     = Inr (pixel (489951 / 500000 + sqrt (1 - 489951 / 500000)))
   \<and> estimate_x0 ddpm2 (pixel (489951 / 500000 + sqrt (1 - 489951 / 500000))) [1] (pixel 1)
     = Inr (pixel (sqrt (489951 / 500000)))
   \<and> pixel (sqrt (489951 / 500000)) \<noteq> pixel 1"
proof -
  have z: "simplified_loss_z_n ddpm2 (pixel 1) [1] (pixel 1)
     = Inr (pixel (489951 / 500000 + sqrt (1 - 489951 / 500000)))"
    using ddpm2_z_n [of 1 1] by simp
  have "(489951 / 500000 :: real) / sqrt (489951 / 500000) = sqrt (489951 / 500000)"
    by (rule real_div_sqrt) simp
  then have e: "estimate_x0 ddpm2 (pixel (489951 / 500000 + sqrt (1 - 489951 / 500000))) [1]
      (pixel 1) = Inr (pixel (sqrt (489951 / 500000)))"
    using ddpm2_estimate_x0 [of "489951 / 500000 + sqrt (1 - 489951 / 500000)" 1] by simp
  have "sqrt (489951 / 500000) \<noteq> (1 :: real)" by simp
  then have "pixel (sqrt (489951 / 500000)) \<noteq> pixel 1" by (rule pixel_neq)
  with z e show ?thesis by simp
qed

section \<open>The reverse step\<close>

lemma map2_map_same:
  "map2 g (map f1 xs) (map f2 xs) = map (\<lambda>i. g (f1 i) (f2 i)) xs"
  by (induction xs) simp_all

lemma sample_z_n_previous_data:
  assumes init: "DDPM_init steps ty hidden_dim n_layers = Inr self"
    and g: "is_ImageBatch x0" "is_ImageBatch z_n" "shape z_n = shape x0"
      "length n = batch_size_of x0"
    and wf: "wf_tensor x0" "wf_tensor z_n"
    and r: "in_range steps n"
  shows "sample_z_n_previous xi self x0 z_n n
       = Inr \<lparr>shape = shape x0,
              data = map (\<lambda>k.
                  data z_n ! k
                    * (sqrt (alpha self ! nat (n ! (k div inner x0)))
                       * (1 - alpha_bar self ! wrap_index steps (n ! (k div inner x0) - 1))
                       / (1 - alpha_bar self ! nat (n ! (k div inner x0))))
                  + data x0 ! k
                    * (sqrt (alpha_bar self ! wrap_index steps (n ! (k div inner x0) - 1))
                       * beta self ! nat (n ! (k div inner x0))
                       / (1 - alpha_bar self ! nat (n ! (k div inner x0))))
                  + beta_tilde self ! nat (n ! (k div inner x0)) * xi k)
                [0..<length (data x0)]\<rparr>"
proof -
  note len = DDPM_init_lengths [OF init]
  have ra: "in_range (length (alpha self)) n" "in_range (length (alpha_bar self)) n"
    "in_range (length (beta self)) n" "in_range (length (beta_tilde self)) n"
    using r len by simp_all
  define c1 where "c1 = map (\<lambda>i. sqrt (alpha self ! nat i)
      * (1 - alpha_bar self ! wrap_index steps (i - 1)) / (1 - alpha_bar self ! nat i)) n"
  define c2 where "c2 = map (\<lambda>i. sqrt (alpha_bar self ! wrap_index steps (i - 1))
      * beta self ! nat i / (1 - alpha_bar self ! nat i)) n"
  define bt where "bt = map (\<lambda>i. beta_tilde self ! nat i) n"
  define mu where "mu = ewise (+) (bcast_r (*) z_n (batch_broadcast c1 z_n))
      (bcast_r (*) x0 (batch_broadcast c2 x0))"
  have lz: "length (data z_n) = length (data x0)"
    by (rule same_shape_length [OF g(3) wf])
  have iz: "inner z_n = inner x0" by (rule same_shape_inner [OF g(3)])
  have b: "k div inner x0 < length n" if "k < length (data x0)" for k
    by (rule batch_index_less [OF g(1) wf(1) g(4) that])
  have smu: "shape mu = shape x0" by (simp add: mu_def shape_ops g(3))
  have imu: "inner mu = inner x0" by (rule same_shape_inner [OF smu])
  have dmu: "data mu = map (\<lambda>k. data z_n ! k * c1 ! (k div inner x0)
                               + data x0 ! k * c2 ! (k div inner x0)) [0..<length (data x0)]"
  proof -
    have "data mu = map (\<lambda>k. data (bcast_r (*) z_n (batch_broadcast c1 z_n)) ! k
        + data (bcast_r (*) x0 (batch_broadcast c2 x0)) ! k) [0..<length (data x0)]"
      unfolding mu_def data_ops(2) by (rule map2_upt) (simp_all add: data_ops lz)
    also have "\<dots> = map (\<lambda>k. data z_n ! k * c1 ! (k div inner x0)
                               + data x0 ! k * c2 ! (k div inner x0)) [0..<length (data x0)]"
      by (simp add: data_ops lz iz)
    finally show ?thesis .
  qed
  have std: "list_all (\<lambda>s. 0 \<le> s) bt"
  proof -
    have "0 \<le> beta_tilde self ! nat i" if "i \<in> set n" for i
    proof -
      from r that have "0 \<le> i \<and> i < int steps" by (simp add: in_range_def list_all_iff)
      then have "nat i < steps" by linarith
      from DDPM_init_beta_tilde_pos [OF init this] show ?thesis by simp
    qed
    then show ?thesis by (simp add: bt_def list_all_iff)
  qed
  define z_prev where "z_prev = \<lparr>shape = shape mu,
      data = map (\<lambda>k. data mu ! k + bt ! (k div inner mu) * xi k) [0..<length (data mu)]\<rparr>"
  have nrm: "normal xi mu (batch_broadcast bt z_n) = Inr z_prev"
    using std by (simp add: normal_def data_ops z_prev_def)
  have gathers:
    "gather (alpha self) n = Inr (map (\<lambda>i. alpha self ! nat i) n)"
    "gather (alpha_bar self) n = Inr (map (\<lambda>i. alpha_bar self ! nat i) n)"
    "gather (beta self) n = Inr (map (\<lambda>i. beta self ! nat i) n)"
    "gather (beta_tilde self) n = Inr bt"
    "gather (alpha_bar self) (map (\<lambda>i. i - 1) n)
       = Inr (map (\<lambda>i. alpha_bar self ! wrap_index steps (i - 1)) n)"
    using gather_in_range [OF ra(1)] gather_in_range [OF ra(2)] gather_in_range [OF ra(3)]
      gather_in_range [OF ra(4)] gather_prev_in_range [OF ra(2)]
    by (simp_all add: bt_def len)
  have coeff1: "map2 (/) (map2 (*) (map sqrt (map (\<lambda>i. alpha self ! nat i) n))
         (map (\<lambda>a. 1 - a) (map (\<lambda>i. alpha_bar self ! wrap_index steps (i - 1)) n)))
       (map (\<lambda>a. 1 - a) (map (\<lambda>i. alpha_bar self ! nat i) n)) = c1"
    by (simp only: map_map comp_def map2_map_same c1_def)
  have coeff2: "map2 (/) (map2 (*) (map sqrt
           (map (\<lambda>i. alpha_bar self ! wrap_index steps (i - 1)) n))
         (map (\<lambda>i. beta self ! nat i) n))
       (map (\<lambda>a. 1 - a) (map (\<lambda>i. alpha_bar self ! nat i) n)) = c2"
    by (simp only: map_map comp_def map2_map_same c2_def)
  have sp: "shape z_prev = shape x0" by (simp add: z_prev_def smu)
  have ip: "is_ImageBatch z_prev" using g(1) sp by (simp add: is_ImageBatch_def)
  have res: "sample_z_n_previous xi self x0 z_n n = Inr z_prev"
    unfolding sample_z_n_previous_def gathers and_then_Inr Let_def coeff1 coeff2
      mu_def [symmetric] nrm
    using g ip sp by simp
  have "data z_prev = map (\<lambda>k.
                  data z_n ! k
                    * (sqrt (alpha self ! nat (n ! (k div inner x0)))
                       * (1 - alpha_bar self ! wrap_index steps (n ! (k div inner x0) - 1))
                       / (1 - alpha_bar self ! nat (n ! (k div inner x0))))
                  + data x0 ! k
                    * (sqrt (alpha_bar self ! wrap_index steps (n ! (k div inner x0) - 1))
                       * beta self ! nat (n ! (k div inner x0))
                       / (1 - alpha_bar self ! nat (n ! (k div inner x0))))
                  + beta_tilde self ! nat (n ! (k div inner x0)) * xi k)
                [0..<length (data x0)]"
    using b by (simp add: z_prev_def dmu imu c1_def c2_def bt_def)
  with sp have "z_prev = \<lparr>shape = shape x0,
              data = map (\<lambda>k.
                  data z_n ! k
                    * (sqrt (alpha self ! nat (n ! (k div inner x0)))
                       * (1 - alpha_bar self ! wrap_index steps (n ! (k div inner x0) - 1))
                       / (1 - alpha_bar self ! nat (n ! (k div inner x0))))
                  + data x0 ! k
                    * (sqrt (alpha_bar self ! wrap_index steps (n ! (k div inner x0) - 1))
                       * beta self ! nat (n ! (k div inner x0))
                       / (1 - alpha_bar self ! nat (n ! (k div inner x0))))
                  + beta_tilde self ! nat (n ! (k div inner x0)) * xi k)
                [0..<length (data x0)]\<rparr>"
    by (intro tensor_eqI) simp_all
  with res show ?thesis by simp
qed

text \<open>
  Claim C4. For every \<open>x0\<close>, \<open>z_n\<close> and every noise level vector \<open>n\<close> with all entries
  positive, \<^verbatim>\<open>sample_z_n_previous\<close> returns a sample of a normal distribution with
  variance \<open>beta_tilde[n]\<close> and mean
  \<open>z_n * sqrt (alpha[n]) * (1 - alpha_bar[n-1]) / (1 - alpha_bar[n])
    + x0 * sqrt (alpha_bar[n-1]) * beta[n] / (1 - alpha_bar[n])\<close>, the draw being the mean
  plus the standard deviation times a unit-normal input.

  The mean is the stated one (lemma \<open>sample_z_n_previous_data\<close>), the variance is not:
  line 272 passes \<open>beta_tilde[n]\<close> as \<^verbatim>\<open>std\<close>, so the standard deviation of the draw is
  \<open>beta_tilde[n]\<close> and its variance \<open>beta_tilde[n]^2\<close>. With two diffusion steps, zero
  images, level 1 and the unit-normal input 1, the draw is \<open>beta_tilde[1] = 1 / 10049\<close>,
  where a variance of \<open>beta_tilde[1]\<close> gives \<open>sqrt (1 / 10049)\<close>.
\<close>

theorem sample_z_n_previous_std_is_beta_tilde:
  "sample_z_n_previous (\<lambda>k. 1) ddpm2 (pixel 0) (pixel 0) [1] = Inr (pixel (1 / 10049))
   \<and> beta_tilde ddpm2 ! 1 = 1 / 10049
   \<and> pixel (1 / 10049) \<noteq> pixel (0 + sqrt (beta_tilde ddpm2 ! 1) * 1)"
proof -
  have "sample_z_n_previous (\<lambda>k. 1) ddpm2 (pixel 0) (pixel 0) [1]
      = Inr \<lparr>shape = shape (pixel 0),
              data = map (\<lambda>k.
                  data (pixel 0) ! k
                    * (sqrt (alpha ddpm2 ! nat ([1] ! (k div inner (pixel 0))))
                       * (1 - alpha_bar ddpm2 ! wrap_index 2 ([1] ! (k div inner (pixel 0)) - 1))
                       / (1 - alpha_bar ddpm2 ! nat ([1] ! (k div inner (pixel 0)))))
                  + data (pixel 0) ! k
                    * (sqrt (alpha_bar ddpm2 ! wrap_index 2 ([1] ! (k div inner (pixel 0)) - 1))
                       * beta ddpm2 ! nat ([1] ! (k div inner (pixel 0)))
                       / (1 - alpha_bar ddpm2 ! nat ([1] ! (k div inner (pixel 0)))))
                  + beta_tilde ddpm2 ! nat ([1] ! (k div inner (pixel 0))) * 1)
                [0..<length (data (pixel 0))]\<rparr>"
    by (rule sample_z_n_previous_data [OF ddpm2_init])
       (simp_all add: pixel_facts batch_size_of_def in_range_def)
  also have "\<dots> = Inr (pixel (1 / 10049))"
    by (simp add: pixel_def inner_def ddpm2_def)
  finally have run: "sample_z_n_previous (\<lambda>k. 1) ddpm2 (pixel 0) (pixel 0) [1]
      = Inr (pixel (1 / 10049))" .
  have bt: "beta_tilde ddpm2 ! 1 = 1 / 10049" by (simp add: ddpm2_def)
  have "sqrt (1 / 10049) \<noteq> (1 / 10049 :: real)" by (rule sqrt_neq_self) simp_all
  then have "pixel (1 / 10049) \<noteq> pixel (0 + sqrt (beta_tilde ddpm2 ! 1) * 1)"
    by (simp add: ddpm2_def pixel_def)
  with run bt show ?thesis by simp
qed

text \<open>
  Claim C10. If \<^verbatim>\<open>sample_z_n_previous\<close> is called with a noise level vector that has an
  entry equal to 0, it does not fail: the index \<open>n - 1 = -1\<close> wraps around, so that
  \<open>alpha_bar[n-1]\<close> reads \<open>alpha_bar[N-1]\<close>, the last entry of the schedule, and no
  \<^verbatim>\<open>IndexError\<close> is raised. The entries of the result for such a batch element are
  computed from \<open>alpha_bar[N-1]\<close>.
\<close>

theorem sample_z_n_previous_level_zero_wraps:
  assumes "DDPM_init steps ty hidden_dim n_layers = Inr self"
    and "wf_tensor x0" and "wf_tensor z_n"
    and "shape x0 = [B, C, H, W]" and "shape z_n = [B, C, H, W]"
    and "length n = B" and "in_range steps n"
  shows "\<exists>z_prev alpha_bar_prev.
         sample_z_n_previous xi self x0 z_n n = Inr z_prev
       \<and> shape z_prev = [B, C, H, W] \<and> wf_tensor z_prev
       \<and> gather (alpha_bar self) (map (\<lambda>i. i - 1) n) = Inr alpha_bar_prev
       \<and> (\<forall>b < B. n ! b = 0 \<longrightarrow>
            alpha_bar_prev ! b = alpha_bar self ! (steps - 1)
          \<and> (\<forall>c < C. \<forall>h < H. \<forall>w < W.
               entry4 z_prev b c h w
                 = entry4 z_n b c h w
                     * (sqrt (alpha self ! 0) * (1 - alpha_bar self ! (steps - 1))
                        / (1 - alpha_bar self ! 0))
                   + entry4 x0 b c h w
                     * (sqrt (alpha_bar self ! (steps - 1)) * beta self ! 0
                        / (1 - alpha_bar self ! 0))
                   + beta_tilde self ! 0 * xi (((b * C + c) * H + h) * W + w)))"
proof -
  define z_prev where "z_prev = \<lparr>shape = shape x0,
              data = map (\<lambda>k.
                  data z_n ! k
                    * (sqrt (alpha self ! nat (n ! (k div inner x0)))
                       * (1 - alpha_bar self ! wrap_index steps (n ! (k div inner x0) - 1))
                       / (1 - alpha_bar self ! nat (n ! (k div inner x0))))
                  + data x0 ! k
                    * (sqrt (alpha_bar self ! wrap_index steps (n ! (k div inner x0) - 1))
                       * beta self ! nat (n ! (k div inner x0))
                       / (1 - alpha_bar self ! nat (n ! (k div inner x0))))
                  + beta_tilde self ! nat (n ! (k div inner x0)) * xi k)
                [0..<length (data x0)]\<rparr>"
  define alpha_bar_prev where
    "alpha_bar_prev = map (\<lambda>i. alpha_bar self ! wrap_index steps (i - 1)) n"
  note init = assms(1)
  have res: "sample_z_n_previous xi self x0 z_n n = Inr z_prev"
    unfolding z_prev_def
    using ImageBatch4 [OF assms(4)] ImageBatch4 [OF assms(5)] assms(2-7)
    by (intro sample_z_n_previous_data [OF init]) simp_all
  have sh: "shape z_prev = [B, C, H, W]" by (simp add: z_prev_def assms(4))
  have r: "in_range (length (alpha_bar self)) n"
    using assms(7) DDPM_init_lengths(3) [OF init] by simp
  have ga: "gather (alpha_bar self) (map (\<lambda>i. i - 1) n) = Inr alpha_bar_prev"
    using gather_prev_in_range [OF r] DDPM_init_lengths(3) [OF init]
    by (simp add: alpha_bar_prev_def)
  have len: "length (data x0) = B * (C * (H * W))"
    using assms(2,4) by (simp add: wf_tensor_def)
  have prev: "alpha_bar_prev ! b = alpha_bar self ! (steps - 1)" if "b < B" "n ! b = 0" for b
    using that assms(6) wrap_index_minus_one [of steps] by (simp add: alpha_bar_prev_def)
  have ent: "entry4 z_prev b c h w
                 = entry4 z_n b c h w
                     * (sqrt (alpha self ! 0) * (1 - alpha_bar self ! (steps - 1))
                        / (1 - alpha_bar self ! 0))
                   + entry4 x0 b c h w
                     * (sqrt (alpha_bar self ! (steps - 1)) * beta self ! 0
                        / (1 - alpha_bar self ! 0))
                   + beta_tilde self ! 0 * xi (((b * C + c) * H + h) * W + w)"
    if "b < B" "n ! b = 0" "c < C" "h < H" "w < W" for b c h w
  proof -
    note pos = position4 [OF that(1,3,4,5)]
    have "data z_prev ! (((b * C + c) * H + h) * W + w)
        = data z_n ! (((b * C + c) * H + h) * W + w)
                     * (sqrt (alpha self ! 0) * (1 - alpha_bar self ! (steps - 1))
                        / (1 - alpha_bar self ! 0))
                   + data x0 ! (((b * C + c) * H + h) * W + w)
                     * (sqrt (alpha_bar self ! (steps - 1)) * beta self ! 0
                        / (1 - alpha_bar self ! 0))
                   + beta_tilde self ! 0 * xi (((b * C + c) * H + h) * W + w)"
      using pos that(2) wrap_index_minus_one [of steps]
      by (simp add: z_prev_def len inner4 [OF assms(4)])
    then show ?thesis
      by (simp add: entry4_data [OF sh] entry4_data [OF assms(4)] entry4_data [OF assms(5)])
  qed
  have wf: "wf_tensor z_prev" by (simp add: wf_tensor_def z_prev_def len assms(4))
  from res sh wf ga prev ent show ?thesis by blast
qed

theorem sample_z_n_previous_level_zero_wraps_witness:
  "DDPM_init 2 ''resnet'' 16 2 = Inr ddpm2
   \<and> wf_tensor (pixel 1) \<and> shape (pixel 1) = [1, 1, 1, 1]
   \<and> length [0 :: int] = 1 \<and> in_range 2 [0]
   \<and> gather (alpha_bar ddpm2) (map (\<lambda>i. i - 1) [0]) = Inr [alpha_bar ddpm2 ! 1]
   \<and> sample_z_n_previous (\<lambda>k. 0) ddpm2 (pixel 1) (pixel 1) [0]
       = Inr (pixel (1 * (sqrt (9999 / 10000) * (1 - 489951 / 500000) / (1 - 9999 / 10000))
                     + 1 * (sqrt (489951 / 500000) * (1 / 10000) / (1 - 9999 / 10000))
                     + 1 / 10000 * 0))"
proof -
  have r: "in_range 2 [0]" by (simp add: in_range_def)
  have l: "length [0 :: int] = 1" by simp
  have w: "wf_tensor (pixel 1)" and s: "shape (pixel 1) = [1, 1, 1, 1]"
    by (simp_all add: pixel_facts)
  from sample_z_n_previous_level_zero_wraps [OF ddpm2_init w w s s l r, where xi = "\<lambda>k. 0"]
  obtain z_prev alpha_bar_prev where x:
      "sample_z_n_previous (\<lambda>k. 0) ddpm2 (pixel 1) (pixel 1) [0] = Inr z_prev"
      "shape z_prev = [1, 1, 1, 1]" "wf_tensor z_prev"
      "gather (alpha_bar ddpm2) (map (\<lambda>i. i - 1) [0]) = Inr alpha_bar_prev"
      "alpha_bar_prev ! 0 = alpha_bar ddpm2 ! (2 - 1)"
      "entry4 z_prev 0 0 0 0
         = entry4 (pixel 1) 0 0 0 0
             * (sqrt (alpha ddpm2 ! 0) * (1 - alpha_bar ddpm2 ! (2 - 1))
                / (1 - alpha_bar ddpm2 ! 0))
           + entry4 (pixel 1) 0 0 0 0
             * (sqrt (alpha_bar ddpm2 ! (2 - 1)) * beta ddpm2 ! 0
                / (1 - alpha_bar ddpm2 ! 0))
           + beta_tilde ddpm2 ! 0 * 0"
    by auto
  from x(6) have "entry4 z_prev 0 0 0 0
      = 1 * (sqrt (9999 / 10000) * (1 - 489951 / 500000) / (1 - 9999 / 10000))
        + 1 * (sqrt (489951 / 500000) * (1 / 10000) / (1 - 9999 / 10000))
        + 1 / 10000 * 0"
    by (simp add: pixel_facts ddpm2_def)
  from pixel_eqI [OF x(2,3) this] x(1) ddpm2_init r show ?thesis
    by (simp add: pixel_facts gather_def index_ok_def wrap_index_def ddpm2_def)
qed

section \<open>The errors of the constructor\<close>

text \<open>
  Claim C9, as stated: the constructor raises a configuration error if and only if the
  architecture-type string is neither \<open>"resnet"\<close> nor \<open>"unet"\<close>, and for those two strings
  it constructs the corresponding denoising network and does not raise. This fails for
  \<open>"unet"\<close> with three layers, where the assertion of \<^verbatim>\<open>MiniUnet.__init__\<close> raises.
\<close>

theorem unet_three_layers_raises:
  "DDPM_init 2 ''unet'' 16 3
     = Inl (AssertionError
         ''MNIST images can only be downsampled twice without taking care of padding issues'')"
  by (simp add: DDPM_init_def MiniUnet_init_def)

text \<open>
  Claim C9, amended. The constructor raises the \<^verbatim>\<open>RuntimeError\<close> for an unknown model
  type if and only if the architecture-type string is neither \<open>"resnet"\<close> nor \<open>"unet"\<close>.
  With at least one diffusion step it constructs the residual network for \<open>"resnet"\<close>, and
  the U-Net for \<open>"unet"\<close> with at most two layers, and does not raise; for \<open>"unet"\<close> with
  more than two layers it raises the \<^verbatim>\<open>AssertionError\<close> of \<^verbatim>\<open>MiniUnet.__init__\<close>.
\<close>

theorem DDPM_init_errors:
  "(DDPM_init steps ty hidden_dim n_layers = Inl (RuntimeError (''Unknown model type '' @ ty))
      \<longleftrightarrow> ty \<noteq> ''resnet'' \<and> ty \<noteq> ''unet'')
   \<and> (ty = ''resnet'' \<and> 1 \<le> steps \<longrightarrow>
        (\<exists>self. DDPM_init steps ty hidden_dim n_layers = Inr self
           \<and> model self = ResNet 1 hidden_dim n_layers))
   \<and> (ty = ''unet'' \<and> n_layers \<le> 2 \<and> 1 \<le> steps \<longrightarrow>
        (\<exists>self. DDPM_init steps ty hidden_dim n_layers = Inr self
           \<and> model self = MiniUnet 1 hidden_dim n_layers))
   \<and> (ty = ''unet'' \<and> 2 < n_layers \<longrightarrow>
        DDPM_init steps ty hidden_dim n_layers
          = Inl (AssertionError
              ''MNIST images can only be downsampled twice without taking care of padding issues''))"
proof (intro conjI impI)
  show "DDPM_init steps ty hidden_dim n_layers = Inl (RuntimeError (''Unknown model type '' @ ty))
      \<longleftrightarrow> ty \<noteq> ''resnet'' \<and> ty \<noteq> ''unet''"
    by (cases "schedule steps")
       (auto simp: DDPM_init_def ResNet_init_def MiniUnet_init_def schedule_def Let_def
          split: if_splits)
next
  assume "ty = ''resnet'' \<and> 1 \<le> steps"
  then show "\<exists>self. DDPM_init steps ty hidden_dim n_layers = Inr self
           \<and> model self = ResNet 1 hidden_dim n_layers"
    using DDPM_init_ok(1) [of steps ty hidden_dim n_layers] by auto
next
  assume "ty = ''unet'' \<and> n_layers \<le> 2 \<and> 1 \<le> steps"
  then show "\<exists>self. DDPM_init steps ty hidden_dim n_layers = Inr self
           \<and> model self = MiniUnet 1 hidden_dim n_layers"
    using DDPM_init_ok(2) [of steps ty n_layers hidden_dim] by auto
next
  assume "ty = ''unet'' \<and> 2 < n_layers"
  then show "DDPM_init steps ty hidden_dim n_layers
          = Inl (AssertionError
              ''MNIST images can only be downsampled twice without taking care of padding issues'')"
    by (simp add: DDPM_init_def MiniUnet_init_def)
qed

theorem DDPM_init_errors_witness:
  "DDPM_init 2 ''vit'' 16 2 = Inl (RuntimeError ''Unknown model type vit'')
   \<and> DDPM_init 2 ''resnet'' 16 2 = Inr ddpm2 \<and> model ddpm2 = ResNet 1 16 2
   \<and> DDPM_init 2 ''unet'' 16 2 = Inr (ddpm2\<lparr>type := ''unet'', model := MiniUnet 1 16 2\<rparr>)
   \<and> DDPM_init 1 ''unet'' 16 3
       = Inl (AssertionError
           ''MNIST images can only be downsampled twice without taking care of padding issues'')"
proof -
  from DDPM_init_errors [of 2 "''vit''" 16 2]
  have a: "DDPM_init 2 ''vit'' 16 2 = Inl (RuntimeError ''Unknown model type vit'')" by simp
  from DDPM_init_errors [of 2 "''resnet''" 16 2] ddpm2_init
  have b: "DDPM_init 2 ''resnet'' 16 2 = Inr ddpm2 \<and> model ddpm2 = ResNet 1 16 2" by auto
  from DDPM_init_errors [of 2 "''unet''" 16 2]
  obtain self where s: "DDPM_init 2 ''unet'' 16 2 = Inr self" "model self = MiniUnet 1 16 2"
    by auto
  from DDPM_init_Inr [OF s(1)] DDPM_init_Inr(2) [OF ddpm2_init] s(2)
  have "self = ddpm2\<lparr>type := ''unet'', model := MiniUnet 1 16 2\<rparr>"
    by (simp add: ddpm2_def)
  with s(1) have c: "DDPM_init 2 ''unet'' 16 2
      = Inr (ddpm2\<lparr>type := ''unet'', model := MiniUnet 1 16 2\<rparr>)" by simp
  from DDPM_init_errors [of 1 "''unet''" 16 3]
  have d: "DDPM_init 1 ''unet'' 16 3
       = Inl (AssertionError
           ''MNIST images can only be downsampled twice without taking care of padding issues'')"
    by simp
  from a b c d show ?thesis by simp
qed

section \<open>The sampling loop\<close>

lemma and_then_assoc:
  "and_then (and_then m f) g = and_then m (\<lambda>v. and_then (f v) g)"
  by (cases m) (simp_all add: and_then_def)

lemma sample_loop_spec:
  "sample_loop body xi self batch_size (rev [0..<Suc k]) z x
     = and_then (sampling_spec body xi self batch_size (Suc k) z) (\<lambda>r. Inr (Some r))"
proof (induction k arbitrary: z x)
  case 0
  show ?case by (simp add: and_then_assoc Let_def and_then_Inr)
next
  case (Suc k)
  have "rev [0..<Suc (Suc k)] = Suc k # rev [0..<Suc k]" by simp
  then show ?case
    by (simp only: sample_loop.simps sampling_spec.simps Let_def and_then_assoc Suc.IH)
       (simp add: and_then_assoc)
qed

lemma sample_spec:
  "sample body z_N xi self batch_size
     = sampling_spec body xi self batch_size (N self) (randn z_N [batch_size, 1, 28, 28])"
proof (cases "N self")
  case 0
  then show ?thesis by (simp add: sample_def and_then_Inr)
next
  case (Suc k)
  have "and_then (and_then (sampling_spec body xi self batch_size (Suc k)
            (randn z_N [batch_size, 1, 28, 28])) (\<lambda>r. Inr (Some r)))
          (\<lambda>x0. case x0 of None \<Rightarrow> Inl UnboundLocalError | Some x \<Rightarrow> Inr x)
      = sampling_spec body xi self batch_size (Suc k) (randn z_N [batch_size, 1, 28, 28])"
    by (cases "sampling_spec body xi self batch_size (Suc k) (randn z_N [batch_size, 1, 28, 28])")
       (simp_all add: and_then_def)
  then show ?thesis
    unfolding sample_def Let_def Suc sample_loop_spec by simp
qed

lemma in_range_replicate: "k < steps \<Longrightarrow> in_range steps (replicate b (int k))"
  by (simp add: in_range_def list_all_iff)

lemma estimate_x0_ok:
  assumes init: "DDPM_init steps ty hidden_dim n_layers = Inr self"
    and g: "is_ImageBatch z_n" "shape epsilon = shape z_n" "length n = batch_size_of z_n"
    and wf: "wf_tensor z_n" "wf_tensor epsilon"
    and r: "in_range steps n"
  shows "\<exists>x_0. estimate_x0 self z_n n epsilon = Inr x_0 \<and> shape x_0 = shape z_n \<and> wf_tensor x_0"
proof -
  have r': "in_range (length (alpha_bar self)) n"
    using r DDPM_init_lengths(3) [OF init] by simp
  have ge: "is_ImageBatch epsilon" using g(1,2) by (simp add: is_ImageBatch_def)
  from estimate_x0_data [OF g(1) ge g(2,3) wf r'] wf(1) show ?thesis
    by (simp add: wf_tensor_def)
qed

lemma sample_z_n_previous_ok:
  assumes init: "DDPM_init steps ty hidden_dim n_layers = Inr self"
    and g: "is_ImageBatch z_n" "shape x0 = shape z_n" "length n = batch_size_of z_n"
    and wf: "wf_tensor x0" "wf_tensor z_n"
    and r: "in_range steps n"
  shows "\<exists>z_prev. sample_z_n_previous xi self x0 z_n n = Inr z_prev
       \<and> shape z_prev = shape z_n \<and> wf_tensor z_prev"
proof -
  have gx: "is_ImageBatch x0" "shape z_n = shape x0" "length n = batch_size_of x0"
    using g by (simp_all add: is_ImageBatch_def batch_size_of_def)
  from sample_z_n_previous_data [OF init gx(1) g(1) gx(2,3) wf r] wf(1) g(2) show ?thesis
    by (simp add: wf_tensor_def)
qed

lemma sampling_spec_ok:
  assumes init: "DDPM_init steps ty hidden_dim n_layers = Inr self"
    and net: "\<forall>z n. wf_tensor z \<and> shape z = [batch_size, 1, 28, 28] \<and> length n = batch_size
        \<longrightarrow> (\<exists>out. body (model self) z n = Inr out \<and> shape out = shape z \<and> wf_tensor out)"
    and k: "k < steps"
    and z: "wf_tensor z" "shape z = [batch_size, 1, 28, 28]"
  shows "\<exists>x0 z_0 predicted_noise.
           sampling_spec body xi self batch_size (Suc k) z = Inr x0
         \<and> shape x0 = [batch_size, 1, 28, 28] \<and> wf_tensor x0
         \<and> wf_tensor z_0 \<and> shape z_0 = [batch_size, 1, 28, 28]
         \<and> forward body (model self) z_0 (replicate batch_size (0 / real steps))
             = Inr predicted_noise
         \<and> estimate_x0 self z_0 (replicate batch_size 0) predicted_noise = Inr x0
         \<and> (k = 0 \<and> z_0 = z
            \<or> 0 < k \<and> (\<exists>x1 z_1. sample_z_n_previous (xi 1) self x1 z_1 (replicate batch_size 1)
                                   = Inr z_0))"
  using k z
proof (induction k arbitrary: z)
  case 0
  note zz = "0.prems"(2,3)
  have ib: "is_ImageBatch z" "batch_size_of z = batch_size"
    using ImageBatch4 [OF zz(2)] by simp_all
  have "length (replicate batch_size (0 / real steps)) = batch_size" by simp
  with net zz
  obtain out where out: "body (model self) z (replicate batch_size (0 / real steps)) = Inr out"
      "shape out = shape z" "wf_tensor out" by blast
  have fw: "forward body (model self) z (replicate batch_size (0 / real steps)) = Inr out"
    using ib out zz(2) by (simp add: forward_def and_then_Inr is_ImageBatch_def)
  have rg: "in_range steps (replicate batch_size 0)"
    using "0.prems"(1) by (simp add: in_range_def list_all_iff)
  from estimate_x0_ok [OF init ib(1) out(2) _ zz(1) out(3) rg] ib(2)
  obtain x0 where x0: "estimate_x0 self z (replicate batch_size 0) out = Inr x0"
      "shape x0 = shape z" "wf_tensor x0" by auto
  have run: "sampling_spec body xi self batch_size (Suc 0) z = Inr x0"
    using fw x0(1) DDPM_init_Inr(1) [OF init] by (simp add: and_then_Inr)
  have sx: "shape x0 = [batch_size, 1, 28, 28]" using x0(2) zz(2) by simp
  show ?case
    by (rule exI [of _ x0], rule exI [of _ z], rule exI [of _ out])
       (simp only: run sx x0(1,3) zz fw simp_thms)
next
  case (Suc k)
  note zz = Suc.prems(2,3)
  have ib: "is_ImageBatch z" "batch_size_of z = batch_size"
    using ImageBatch4 [OF zz(2)] by simp_all
  let ?n = "replicate batch_size (int (Suc k))"
  let ?nn = "replicate batch_size (real (Suc k) / real steps)"
  have rg: "in_range steps ?n" by (rule in_range_replicate [OF Suc.prems(1)])
  have "length ?nn = batch_size" by simp
  with net zz
  obtain out where out: "body (model self) z ?nn = Inr out"
      "shape out = shape z" "wf_tensor out" by blast
  have fw: "forward body (model self) z ?nn = Inr out"
    using ib out zz(2) by (simp add: forward_def and_then_Inr is_ImageBatch_def)
  from estimate_x0_ok [OF init ib(1) out(2) _ zz(1) out(3) rg] ib(2)
  obtain x0 where x0: "estimate_x0 self z ?n out = Inr x0"
      "shape x0 = shape z" "wf_tensor x0" by auto
  from sample_z_n_previous_ok [OF init ib(1) x0(2) _ x0(3) zz(1) rg, of "xi (Suc k)"] ib(2)
  obtain z' where z': "sample_z_n_previous (xi (Suc k)) self x0 z ?n = Inr z'"
      "shape z' = shape z" "wf_tensor z'" by auto
  from Suc.prems(1) have "k < steps" by simp
  moreover have "shape z' = [batch_size, 1, 28, 28]" using z'(2) zz(2) by simp
  ultimately have "\<exists>x0 z_0 predicted_noise.
           sampling_spec body xi self batch_size (Suc k) z' = Inr x0
         \<and> shape x0 = [batch_size, 1, 28, 28] \<and> wf_tensor x0
         \<and> wf_tensor z_0 \<and> shape z_0 = [batch_size, 1, 28, 28]
         \<and> forward body (model self) z_0 (replicate batch_size (0 / real steps))
             = Inr predicted_noise
         \<and> estimate_x0 self z_0 (replicate batch_size 0) predicted_noise = Inr x0
         \<and> (k = 0 \<and> z_0 = z'
            \<or> 0 < k \<and> (\<exists>x1 z_1. sample_z_n_previous (xi 1) self x1 z_1 (replicate batch_size 1)
                                   = Inr z_0))"
    using z'(3) by (intro Suc.IH)
  then obtain r z_0 pn where r: "sampling_spec body xi self batch_size (Suc k) z' = Inr r"
      "shape r = [batch_size, 1, 28, 28]" "wf_tensor r"
      "wf_tensor z_0" "shape z_0 = [batch_size, 1, 28, 28]"
      "forward body (model self) z_0 (replicate batch_size (0 / real steps)) = Inr pn"
      "estimate_x0 self z_0 (replicate batch_size 0) pn = Inr r"
      "k = 0 \<and> z_0 = z'
        \<or> 0 < k \<and> (\<exists>x1 z_1. sample_z_n_previous (xi 1) self x1 z_1 (replicate batch_size 1)
                               = Inr z_0)"
    by (elim exE conjE)
  have run: "sampling_spec body xi self batch_size (Suc (Suc k)) z = Inr r"
    by (subst sampling_spec.simps(2))
       (simp only: DDPM_init_Inr(1) [OF init] fw and_then_Inr x0(1) z'(1) r(1)
          zero_less_Suc if_True)
  have prov: "\<exists>x1 z_1. sample_z_n_previous (xi 1) self x1 z_1 (replicate batch_size 1) = Inr z_0"
  proof (cases "k = 0")
    case True
    with r(8) have "z_0 = z'" by simp
    with z'(1) True
    have "sample_z_n_previous (xi 1) self x0 z (replicate batch_size 1) = Inr z_0" by simp
    then show ?thesis by blast
  next
    case False
    with r(8) show ?thesis by simp
  qed
  have last: "Suc k = 0 \<and> z_0 = z
        \<or> 0 < Suc k \<and> (\<exists>x1 z_1. sample_z_n_previous (xi 1) self x1 z_1
                                     (replicate batch_size 1) = Inr z_0)"
    using prov by simp
  show ?case
    by (rule exI [of _ r], rule exI [of _ z_0], rule exI [of _ pn])
       (intro conjI run r(2-7) last)
qed

text \<open>A run on zero noise with a network that returns its input: every tensor of the
  loop is the zero image batch.\<close>

lemma zeros_facts:
  "wf_tensor (zeros b)"
  "shape (zeros b) = [b, 1, 28, 28]"
  "is_ImageBatch (zeros b)"
  "batch_size_of (zeros b) = b"
  "k < length (data (zeros b)) \<Longrightarrow> data (zeros b) ! k = 0"
  "map (\<lambda>k. 0) [0..<length (data (zeros b))] = data (zeros b)"
  by (simp_all add: zeros_def randn_def wf_tensor_def is_ImageBatch_def batch_size_of_def)

lemma estimate_x0_zeros:
  assumes init: "DDPM_init steps ty hidden_dim n_layers = Inr self"
    and n: "length n = b" "in_range steps n"
  shows "estimate_x0 self (zeros b) n (zeros b) = Inr (zeros b)"
proof -
  have r: "in_range (length (alpha_bar self)) n"
    using n(2) DDPM_init_lengths(3) [OF init] by simp
  have "map (\<lambda>k. (data (zeros b) ! k
                     - sqrt (1 - alpha_bar self ! nat (n ! (k div inner (zeros b))))
                       * data (zeros b) ! k)
                    / sqrt (alpha_bar self ! nat (n ! (k div inner (zeros b)))))
          [0..<length (data (zeros b))]
      = map (\<lambda>k. 0) [0..<length (data (zeros b))]"
    by (rule map_cong [OF refl]) (simp add: zeros_facts(5))
  with estimate_x0_data [OF zeros_facts(3) zeros_facts(3) refl _ zeros_facts(1) zeros_facts(1) r]
    n(1)
  have "estimate_x0 self (zeros b) n (zeros b)
      = Inr \<lparr>shape = shape (zeros b), data = data (zeros b)\<rparr>"
    by (simp only: zeros_facts(4,6))
  then show ?thesis by simp
qed

lemma sample_z_n_previous_zeros:
  assumes init: "DDPM_init steps ty hidden_dim n_layers = Inr self"
    and n: "length n = b" "in_range steps n"
  shows "sample_z_n_previous (\<lambda>k. 0) self (zeros b) (zeros b) n = Inr (zeros b)"
proof -
  have "map (\<lambda>k.
                  data (zeros b) ! k
                    * (sqrt (alpha self ! nat (n ! (k div inner (zeros b))))
                       * (1 - alpha_bar self ! wrap_index steps (n ! (k div inner (zeros b)) - 1))
                       / (1 - alpha_bar self ! nat (n ! (k div inner (zeros b)))))
                  + data (zeros b) ! k
                    * (sqrt (alpha_bar self ! wrap_index steps (n ! (k div inner (zeros b)) - 1))
                       * beta self ! nat (n ! (k div inner (zeros b)))
                       / (1 - alpha_bar self ! nat (n ! (k div inner (zeros b)))))
                  + beta_tilde self ! nat (n ! (k div inner (zeros b))) * 0)
                [0..<length (data (zeros b))]
      = map (\<lambda>k. 0) [0..<length (data (zeros b))]"
    by (rule map_cong [OF refl]) (simp add: zeros_facts(5))
  with sample_z_n_previous_data [OF init zeros_facts(3) zeros_facts(3) refl _ zeros_facts(1)
      zeros_facts(1) n(2), where xi = "\<lambda>k. 0"] n(1)
  have "sample_z_n_previous (\<lambda>k. 0) self (zeros b) (zeros b) n
      = Inr \<lparr>shape = shape (zeros b), data = data (zeros b)\<rparr>"
    by (simp only: zeros_facts(4,6))
  then show ?thesis by simp
qed

lemma forward_identity_zeros:
  assumes "length n = b"
  shows "forward (\<lambda>net z n. Inr z) net (zeros b) n = Inr (zeros b)"
  using assms by (simp add: forward_def and_then_Inr zeros_facts)

lemma sampling_spec_zeros_2:
  "sampling_spec (\<lambda>net z n. Inr z) (\<lambda>n k. 0) ddpm2 1 2 (zeros 1) = Inr (zeros 1)"
proof -
  have r1: "in_range 2 (replicate 1 (int (Suc 0)))" and r0: "in_range 2 (replicate 1 (int 0))"
    by (simp_all add: in_range_def)
  have l: "\<And>v :: int. length (replicate 1 v) = 1" "\<And>v :: real. length (replicate 1 v) = 1"
    by simp_all
  note e1 = estimate_x0_zeros [OF ddpm2_init l(1) r1]
  note e0 = estimate_x0_zeros [OF ddpm2_init l(1) r0]
  note s1 = sample_z_n_previous_zeros [OF ddpm2_init l(1) r1]
  note f = forward_identity_zeros [OF l(2)]
  have "sampling_spec (\<lambda>net z n. Inr z) (\<lambda>n k. 0) ddpm2 1 (Suc (Suc 0)) (zeros 1)
      = Inr (zeros 1)"
    by (simp only: sampling_spec.simps f e1 e0 s1 and_then_Inr zero_less_Suc if_True
        less_irrefl if_False)
  then show ?thesis by (simp only: numeral_2_eq_2)
qed

text \<open>
  Claim C8. For every \<open>N \<ge> 1\<close> and \<open>batch_size\<close>, \<^verbatim>\<open>DDPM.sample\<close> iterates \<open>n\<close> from
  \<open>N - 1\<close> down to 0, at each step predicting the noise from \<open>(z_n, n / N)\<close> and computing
  \<open>x0\<close> with \<^verbatim>\<open>estimate_x0\<close>, and sampling \<open>z_{n-1}\<close> only when \<open>n > 0\<close>; the loop always
  terminates at \<open>n = 0\<close> and returns the final estimate of \<open>x0\<close>, a tensor of shape
  \<open>(batch_size, 1, 28, 28)\<close>.

  For every model, network and draws, \<^verbatim>\<open>sample\<close> is the iteration of section 4.4, which
  takes the reverse step at the levels above 0 only. The convolutions of the denoising
  network are the framework's: when the network returns, for every image batch of that
  shape, an image batch of the same shape, \<^verbatim>\<open>sample\<close> on a constructed model returns, and
  what it returns is the estimate computed at level 0 from the prediction for
  \<open>(z_0, 0 / N)\<close>, where \<open>z_0\<close> is the initial noise when \<open>N = 1\<close> and a draw of the
  reverse step at level 1 otherwise.
\<close>

theorem sample_terminates:
  "sample body z_N xi self batch_size
     = sampling_spec body xi self batch_size (N self) (randn z_N [batch_size, 1, 28, 28])
   \<and> (1 \<le> steps \<and> DDPM_init steps ty hidden_dim n_layers = Inr self
       \<and> (\<forall>z n. wf_tensor z \<and> shape z = [batch_size, 1, 28, 28] \<and> length n = batch_size
             \<longrightarrow> (\<exists>out. body (model self) z n = Inr out \<and> shape out = shape z
                        \<and> wf_tensor out))
      \<longrightarrow> (\<exists>x0 z_0 predicted_noise.
             sample body z_N xi self batch_size = Inr x0
           \<and> shape x0 = [batch_size, 1, 28, 28] \<and> wf_tensor x0
           \<and> wf_tensor z_0 \<and> shape z_0 = [batch_size, 1, 28, 28]
           \<and> forward body (model self) z_0 (replicate batch_size (0 / real steps))
               = Inr predicted_noise
           \<and> estimate_x0 self z_0 (replicate batch_size 0) predicted_noise = Inr x0
           \<and> (steps = 1 \<longrightarrow> z_0 = randn z_N [batch_size, 1, 28, 28])
           \<and> (1 < steps \<longrightarrow>
                (\<exists>x1 z_1. sample_z_n_previous (xi 1) self x1 z_1 (replicate batch_size 1)
                            = Inr z_0))))"
proof (intro conjI impI)
  show "sample body z_N xi self batch_size
     = sampling_spec body xi self batch_size (N self) (randn z_N [batch_size, 1, 28, 28])"
    by (rule sample_spec)
next
  assume hyp: "1 \<le> steps \<and> DDPM_init steps ty hidden_dim n_layers = Inr self
       \<and> (\<forall>z n. wf_tensor z \<and> shape z = [batch_size, 1, 28, 28] \<and> length n = batch_size
             \<longrightarrow> (\<exists>out. body (model self) z n = Inr out \<and> shape out = shape z
                        \<and> wf_tensor out))"
  then have pos: "1 \<le> steps" and init: "DDPM_init steps ty hidden_dim n_layers = Inr self"
    and net: "\<forall>z n. wf_tensor z \<and> shape z = [batch_size, 1, 28, 28] \<and> length n = batch_size
             \<longrightarrow> (\<exists>out. body (model self) z n = Inr out \<and> shape out = shape z
                        \<and> wf_tensor out)"
    by blast+
  have n: "N self = steps" by (rule DDPM_init_Inr(1) [OF init])
  from pos obtain k where k: "steps = Suc k" by (cases steps) simp_all
  have eq: "sample body z_N xi self batch_size
      = sampling_spec body xi self batch_size steps (randn z_N [batch_size, 1, 28, 28])"
    using sample_spec [of body z_N xi self batch_size] by (simp only: n)
  have wz: "wf_tensor (randn z_N [batch_size, 1, 28, 28])"
    and sz: "shape (randn z_N [batch_size, 1, 28, 28]) = [batch_size, 1, 28, 28]"
    by (simp_all add: randn_def wf_tensor_def)
  have "k < steps" by (simp add: k)
  from sampling_spec_ok [where body = body and batch_size = batch_size and xi = xi,
      OF init net this wz sz]
  obtain x0 z_0 predicted_noise where r:
    "sampling_spec body xi self batch_size (Suc k) (randn z_N [batch_size, 1, 28, 28]) = Inr x0"
    "shape x0 = [batch_size, 1, 28, 28]" "wf_tensor x0"
    "wf_tensor z_0" "shape z_0 = [batch_size, 1, 28, 28]"
    "forward body (model self) z_0 (replicate batch_size (0 / real steps)) = Inr predicted_noise"
    "estimate_x0 self z_0 (replicate batch_size 0) predicted_noise = Inr x0"
    "k = 0 \<and> z_0 = randn z_N [batch_size, 1, 28, 28]
      \<or> 0 < k \<and> (\<exists>x1 z_1. sample_z_n_previous (xi 1) self x1 z_1 (replicate batch_size 1)
                             = Inr z_0)"
    by (elim exE conjE)
  from r(1) have "sampling_spec body xi self batch_size steps (randn z_N [batch_size, 1, 28, 28])
      = Inr x0"
    by (simp only: k)
  with eq have run: "sample body z_N xi self batch_size = Inr x0" by (simp only:)
  have one: "steps = 1 \<longrightarrow> z_0 = randn z_N [batch_size, 1, 28, 28]"
    using r(8) k by auto
  have more: "1 < steps \<longrightarrow>
      (\<exists>x1 z_1. sample_z_n_previous (xi 1) self x1 z_1 (replicate batch_size 1) = Inr z_0)"
    using r(8) k by auto
  show "\<exists>x0 z_0 predicted_noise.
             sample body z_N xi self batch_size = Inr x0
           \<and> shape x0 = [batch_size, 1, 28, 28] \<and> wf_tensor x0
           \<and> wf_tensor z_0 \<and> shape z_0 = [batch_size, 1, 28, 28]
           \<and> forward body (model self) z_0 (replicate batch_size (0 / real steps))
               = Inr predicted_noise
           \<and> estimate_x0 self z_0 (replicate batch_size 0) predicted_noise = Inr x0
           \<and> (steps = 1 \<longrightarrow> z_0 = randn z_N [batch_size, 1, 28, 28])
           \<and> (1 < steps \<longrightarrow>
                (\<exists>x1 z_1. sample_z_n_previous (xi 1) self x1 z_1 (replicate batch_size 1)
                            = Inr z_0))"
    by (rule exI [of _ x0], rule exI [of _ z_0], rule exI [of _ predicted_noise])
       (intro conjI run r(2-7) one more)
qed

theorem sample_terminates_witness:
  "DDPM_init 1 ''resnet'' 16 2 = Inr ddpm1 \<and> DDPM_init 2 ''resnet'' 16 2 = Inr ddpm2
   \<and> \<not> isl (sample (\<lambda>net z n. Inr z) (\<lambda>k. 0) (\<lambda>n k. 0) ddpm1 1)
   \<and> shape (projr (sample (\<lambda>net z n. Inr z) (\<lambda>k. 0) (\<lambda>n k. 0) ddpm1 1)) = [1, 1, 28, 28]
   \<and> sample (\<lambda>net z n. Inr z) (\<lambda>k. 0) (\<lambda>n k. 0) ddpm2 1
       = sampling_spec (\<lambda>net z n. Inr z) (\<lambda>n k. 0) ddpm2 1 2 (zeros 1)
   \<and> sample (\<lambda>net z n. Inr z) (\<lambda>k. 0) (\<lambda>n k. 0) ddpm2 1 = Inr (zeros 1)
   \<and> shape (zeros 1) = [1, 1, 28, 28]
   \<and> sample_z_n_previous (\<lambda>k. 0) ddpm2 (zeros 1) (zeros 1) (replicate 1 1) = Inr (zeros 1)"
proof -
  have net1: "\<forall>z n. wf_tensor z \<and> shape z = [1, 1, 28, 28] \<and> length n = 1
           \<longrightarrow> (\<exists>out. (\<lambda>net z n. Inr z) (model ddpm1) z (n :: real list) = Inr out
                  \<and> shape out = shape z \<and> wf_tensor out)"
    and net2: "\<forall>z n. wf_tensor z \<and> shape z = [1, 1, 28, 28] \<and> length n = 1
           \<longrightarrow> (\<exists>out. (\<lambda>net z n. Inr z) (model ddpm2) z (n :: real list) = Inr out
                  \<and> shape out = shape z \<and> wf_tensor out)"
    by simp_all
  have p1: "(1 :: nat) \<le> 1" and p2: "(1 :: nat) \<le> 2" by simp_all
  note t1 = sample_terminates [where body = "\<lambda>net z n. Inr z" and batch_size = 1
      and z_N = "\<lambda>k. 0" and xi = "\<lambda>n k. 0" and self = ddpm1 and steps = 1
      and ty = "''resnet''" and hidden_dim = 16 and n_layers = 2]
  note t2 = sample_terminates [where body = "\<lambda>net z n. Inr z" and batch_size = 1
      and z_N = "\<lambda>k. 0" and xi = "\<lambda>n k. 0" and self = ddpm2 and steps = 2
      and ty = "''resnet''" and hidden_dim = 16 and n_layers = 2]
  from conjunct2 [OF t1] p1 ddpm1_init net1
  obtain x1 where x1: "sample (\<lambda>net z n. Inr z) (\<lambda>k. 0) (\<lambda>n k. 0) ddpm1 1 = Inr x1"
    "shape x1 = [1, 1, 28, 28]" by blast
  from conjunct2 [OF t2] p2 ddpm2_init net2
  obtain x2 where x2: "sample (\<lambda>net z n. Inr z) (\<lambda>k. 0) (\<lambda>n k. 0) ddpm2 1 = Inr x2"
    "shape x2 = [1, 1, 28, 28]" by blast
  have n2: "N ddpm2 = 2" by (simp add: ddpm2_def)
  from conjunct1 [OF t2]
  have eq: "sample (\<lambda>net z n. Inr z) (\<lambda>k. 0) (\<lambda>n k. 0) ddpm2 1
       = sampling_spec (\<lambda>net z n. Inr z) (\<lambda>n k. 0) ddpm2 1 2 (zeros 1)"
    by (simp only: n2 zeros_def)
  then have run: "sample (\<lambda>net z n. Inr z) (\<lambda>k. 0) (\<lambda>n k. 0) ddpm2 1 = Inr (zeros 1)"
    by (simp only: sampling_spec_zeros_2)
  have r1: "in_range 2 (replicate 1 1)" by (simp add: in_range_def)
  have l1: "length (replicate 1 (1 :: int)) = 1" by simp
  note rev_step = sample_z_n_previous_zeros [OF ddpm2_init l1 r1]
  show ?thesis
    by (simp only: x1 ddpm1_init ddpm2_init eq [symmetric] run zeros_facts(2) rev_step
        sum.disc sum.sel simp_thms)
qed

end
